theory Spec2Isabelle
  imports Complex_Main
begin

section \<open>Python values\<close>

subsection \<open>Floating-point numbers\<close>

text \<open>
  A Python \<open>float\<close> is an IEEE-754 binary64 number.  The finite ones are modelled by
  their exact rational value, next to the two infinities and NaN.  The sign of zero is
  not kept: \<open>-0.0 == 0.0\<close> holds in Python and no operation modelled below tells the
  two zeros apart.
\<close>

datatype pyfloat = Fin rat | PosInf | NegInf | NaN

text \<open>\<open>int.bit_length\<close>: the number of binary digits of the absolute value.\<close>

function bit_length :: "int \<Rightarrow> nat" where
  "bit_length n = (if n = 0 then 0 else Suc (bit_length (\<bar>n\<bar> div 2)))"
  by pat_completeness auto
termination
  by (relation "measure (\<lambda>n. nat \<bar>n\<bar>)") auto

declare bit_length.simps [simp del]

text \<open>Rounding a rational to the nearest integer, ties to the even one.\<close>

definition round_half_even :: "rat \<Rightarrow> int" where
  "round_half_even q =
     (let f = \<lfloor>q\<rfloor>; d = q - of_int f
      in if d < 1 / 2 then f
         else if 1 / 2 < d then f + 1
         else if even f then f else f + 1)"

text \<open>Powers of two with an integer exponent.\<close>

definition two_pow :: "int \<Rightarrow> rat" where
  "two_pow k = (if 0 \<le> k then 2 ^ nat k else 1 / 2 ^ nat (- k))"

text \<open>
  The binary exponent of a non-zero rational \<open>r = p / q\<close>: the \<open>e\<close> with
  \<open>2 ^ e \<le> \<bar>r\<bar> < 2 ^ (e + 1)\<close>.  The difference \<open>d\<close> of the bit lengths of
  \<open>p\<close> and \<open>q\<close> is \<open>e\<close> or \<open>e + 1\<close>.
\<close>

definition binary_exponent :: "rat \<Rightarrow> int" where
  "binary_exponent r =
     (let (p, q) = quotient_of \<bar>r\<bar>;
          d = int (bit_length p) - int (bit_length q)
      in if two_pow d \<le> \<bar>r\<bar> then d else d - 1)"

text \<open>
  Rounding a rational to binary64 precision, exponent unbounded above.  A number with
  binary exponent \<open>e\<close> is rounded to a multiple of \<open>2 ^ (e - 52)\<close>, which keeps
  a significand of 53 bits, and never to less than a multiple of \<open>2 ^ (- 1074)\<close>,
  the spacing of the subnormal numbers.
\<close>

definition double_round :: "rat \<Rightarrow> rat" where
  "double_round r =
     (if r = 0 then 0
      else let u = max (binary_exponent r - 52) (- 1074)
           in of_int (round_half_even (r / two_pow u)) * two_pow u)"

text \<open>The result of an arithmetic operation: rounded, and infinite on overflow.\<close>

definition fl :: "rat \<Rightarrow> pyfloat" where
  "fl r =
     (let v = double_round r
      in if two_pow 1024 \<le> v then PosInf
         else if v \<le> - two_pow 1024 then NegInf
         else Fin v)"

text \<open>A rational that is a binary64 number: rounding leaves it as it is.\<close>

definition is_double :: "rat \<Rightarrow> bool" where
  "is_double r \<longleftrightarrow> fl r = Fin r"

text \<open>
  The IEEE-754 operations on binary64 numbers.  Division is only called with a non-zero
  divisor: Python raises \<open>ZeroDivisionError\<close> before dividing by zero.
\<close>

fun float_neg :: "pyfloat \<Rightarrow> pyfloat" where
  "float_neg (Fin a) = Fin (- a)"
| "float_neg PosInf = NegInf"
| "float_neg NegInf = PosInf"
| "float_neg NaN = NaN"

fun float_add :: "pyfloat \<Rightarrow> pyfloat \<Rightarrow> pyfloat" where
  "float_add (Fin a) (Fin b) = fl (a + b)"
| "float_add NaN _ = NaN"
| "float_add _ NaN = NaN"
| "float_add PosInf NegInf = NaN"
| "float_add NegInf PosInf = NaN"
| "float_add PosInf _ = PosInf"
| "float_add _ PosInf = PosInf"
| "float_add NegInf _ = NegInf"
| "float_add _ NegInf = NegInf"

definition float_sub :: "pyfloat \<Rightarrow> pyfloat \<Rightarrow> pyfloat" where
  "float_sub a b = float_add a (float_neg b)"

text \<open>An infinity of the sign of \<open>s\<close>; the product of an infinity and zero is NaN.\<close>

definition signed_inf :: "rat \<Rightarrow> pyfloat" where
  "signed_inf s = (if s = 0 then NaN else if 0 < s then PosInf else NegInf)"

fun float_mul :: "pyfloat \<Rightarrow> pyfloat \<Rightarrow> pyfloat" where
  "float_mul (Fin a) (Fin b) = fl (a * b)"
| "float_mul NaN _ = NaN"
| "float_mul _ NaN = NaN"
| "float_mul PosInf (Fin b) = signed_inf b"
| "float_mul NegInf (Fin b) = signed_inf (- b)"
| "float_mul (Fin a) PosInf = signed_inf a"
| "float_mul (Fin a) NegInf = signed_inf (- a)"
| "float_mul PosInf PosInf = PosInf"
| "float_mul PosInf NegInf = NegInf"
| "float_mul NegInf PosInf = NegInf"
| "float_mul NegInf NegInf = PosInf"

fun float_div :: "pyfloat \<Rightarrow> pyfloat \<Rightarrow> pyfloat" where
  "float_div (Fin a) (Fin b) = fl (a / b)"
| "float_div NaN _ = NaN"
| "float_div _ NaN = NaN"
| "float_div PosInf (Fin b) = signed_inf b"
| "float_div NegInf (Fin b) = signed_inf (- b)"
| "float_div (Fin a) PosInf = Fin 0"
| "float_div (Fin a) NegInf = Fin 0"
| "float_div PosInf PosInf = NaN"
| "float_div PosInf NegInf = NaN"
| "float_div NegInf PosInf = NaN"
| "float_div NegInf NegInf = NaN"

text \<open>\<open>==\<close> and \<open>!=\<close> on floats: NaN is equal to nothing, itself included.\<close>

definition float_eq :: "pyfloat \<Rightarrow> pyfloat \<Rightarrow> bool" where
  "float_eq a b \<longleftrightarrow> a \<noteq> NaN \<and> b \<noteq> NaN \<and> a = b"

definition float_ne :: "pyfloat \<Rightarrow> pyfloat \<Rightarrow> bool" where
  "float_ne a b \<longleftrightarrow> \<not> float_eq a b"

subsection \<open>Objects, values and exceptions\<close>

text \<open>
  An instance of \<open>Vector3D\<close> or of its subclass \<open>Rotator3D\<close>: its class and the
  three private attributes \<open>_x\<close>, \<open>_y\<close>, \<open>_z\<close>, which only the setters write and which
  therefore always hold floats.
\<close>

datatype pyclass = ClsVector3D | ClsRotator3D

record Vector3D =
  cls :: pyclass
  attr_x :: pyfloat
  attr_y :: pyfloat
  attr_z :: pyfloat

text \<open>
  The values an argument may be.  \<open>PyTrack n w\<close> is an instance of a class named \<open>n\<close>
  with a \<open>waypoints\<close> attribute \<open>w\<close> (the \<open>Track\<close> and \<open>TrackAPI\<close> collaborators);
  \<open>PyObject n\<close> is an instance of any other class, named \<open>n\<close>, with none of the
  attributes read here.
\<close>

datatype pyval =
    PyNone
  | PyBool bool
  | PyInt int
  | PyFloat pyfloat
  | PyStr string
  | PyList "pyval list"
  | PyTuple "pyval list"
  | PyVec Vector3D
  | PyTrack string pyval
  | PyObject string

datatype error =
    TypeError string
  | NotImplementedError string
  | AttributeError string string
  | OverflowError
  | ZeroDivisionError

definition bind :: "error + 'a \<Rightarrow> ('a \<Rightarrow> error + 'b) \<Rightarrow> error + 'b" where
  "bind m f = (case m of Inl e \<Rightarrow> Inl e | Inr v \<Rightarrow> f v)"

fun class_name :: "pyclass \<Rightarrow> string" where
  "class_name ClsVector3D = ''Vector3D''"
| "class_name ClsRotator3D = ''Rotator3D''"

text \<open>\<open>type(value).__name__\<close>\<close>

fun type_name :: "pyval \<Rightarrow> string" where
  "type_name PyNone = ''NoneType''"
| "type_name (PyBool _) = ''bool''"
| "type_name (PyInt _) = ''int''"
| "type_name (PyFloat _) = ''float''"
| "type_name (PyStr _) = ''str''"
| "type_name (PyList _) = ''list''"
| "type_name (PyTuple _) = ''tuple''"
| "type_name (PyVec v) = class_name (cls v)"
| "type_name (PyTrack n _) = n"
| "type_name (PyObject n) = n"

text \<open>
  \<open>isinstance(value, (int, float))\<close>: \<open>bool\<close> is a subclass of \<open>int\<close>, so the two
  booleans are instances of \<open>int\<close>.
\<close>

fun isinstance_int_float :: "pyval \<Rightarrow> bool" where
  "isinstance_int_float (PyBool _) = True"
| "isinstance_int_float (PyInt _) = True"
| "isinstance_int_float (PyFloat _) = True"
| "isinstance_int_float _ = False"

fun isinstance_bool :: "pyval \<Rightarrow> bool" where
  "isinstance_bool (PyBool _) = True"
| "isinstance_bool _ = False"

text \<open>\<open>Rotator3D\<close> is a subclass of \<open>Vector3D\<close>: its instances are instances of both.\<close>

fun isinstance_Vector3D :: "pyval \<Rightarrow> bool" where
  "isinstance_Vector3D (PyVec _) = True"
| "isinstance_Vector3D _ = False"

fun isinstance_Rotator3D :: "pyval \<Rightarrow> bool" where
  "isinstance_Rotator3D (PyVec v) = (cls v = ClsRotator3D)"
| "isinstance_Rotator3D _ = False"

text \<open>
  The conversion of an \<open>int\<close> to a \<open>float\<close> rounds to the nearest double and raises
  \<open>OverflowError\<close> where that is out of range.
\<close>

definition float_of_int :: "int \<Rightarrow> error + pyfloat" where
  "float_of_int a =
     (let v = double_round (of_int a)
      in if two_pow 1024 \<le> \<bar>v\<bar> then Inl OverflowError else Inr (Fin v))"

text \<open>
  \<open>float(value)\<close> for an instance of \<open>int\<close> or \<open>float\<close>, which is also how the float
  operators read their right operand.  It is called behind the \<open>isinstance\<close> checks
  only; the last equation is never reached.
\<close>

fun py_float :: "pyval \<Rightarrow> error + pyfloat" where
  "py_float (PyFloat f) = Inr f"
| "py_float (PyInt a) = float_of_int a"
| "py_float (PyBool b) = Inr (Fin (if b then 1 else 0))"
| "py_float v = Inl (TypeError (''float() argument must be a string or a real number, not '' @ type_name v))"

section \<open>Vector3D\<close>

text \<open>
  The message of every type check of a setter:
  \<open>"expected type T for C.f but got K instead"\<close>, with \<open>C\<close> the name of the class of
  \<open>self\<close> and \<open>K\<close> the name of the type of the value.
\<close>

definition type_mismatch :: "string \<Rightarrow> string \<Rightarrow> string \<Rightarrow> pyval \<Rightarrow> error" where
  "type_mismatch expected cname field v =
     TypeError (''expected type '' @ expected @ '' for '' @ cname @ ''.'' @ field
                @ '' but got '' @ type_name v @ '' instead'')"

text \<open>
  The body the three component setters share: the check, then \<open>float(value)\<close>.  The
  attribute is assigned last, so a setter that raises leaves the object as it was.
\<close>

definition checked_float :: "string \<Rightarrow> string \<Rightarrow> pyval \<Rightarrow> error + pyfloat" where
  "checked_float cname field v =
     (if \<not> isinstance_int_float v
      then Inl (type_mismatch ''Union[int, float]'' cname field v)
      else py_float v)"

definition x_setter :: "Vector3D \<Rightarrow> pyval \<Rightarrow> error option \<times> Vector3D" where
  "x_setter self v =
     (case checked_float (class_name (cls self)) ''x'' v of
        Inl e \<Rightarrow> (Some e, self)
      | Inr f \<Rightarrow> (None, self\<lparr>attr_x := f\<rparr>))"

definition y_setter :: "Vector3D \<Rightarrow> pyval \<Rightarrow> error option \<times> Vector3D" where
  "y_setter self v =
     (case checked_float (class_name (cls self)) ''y'' v of
        Inl e \<Rightarrow> (Some e, self)
      | Inr f \<Rightarrow> (None, self\<lparr>attr_y := f\<rparr>))"

definition z_setter :: "Vector3D \<Rightarrow> pyval \<Rightarrow> error option \<times> Vector3D" where
  "z_setter self v =
     (case checked_float (class_name (cls self)) ''z'' v of
        Inl e \<Rightarrow> (Some e, self)
      | Inr f \<Rightarrow> (None, self\<lparr>attr_z := f\<rparr>))"

definition x_getter :: "Vector3D \<Rightarrow> pyval" where
  "x_getter self = PyFloat (attr_x self)"

definition y_getter :: "Vector3D \<Rightarrow> pyval" where
  "y_getter self = PyFloat (attr_y self)"

definition z_getter :: "Vector3D \<Rightarrow> pyval" where
  "z_getter self = PyFloat (attr_z self)"

text \<open>
  \<open>Vector3D.__init__\<close> assigns \<open>x\<close>, \<open>y\<close> and \<open>z\<close> through the setters, in this
  order; the instance exists once all three are stored.
\<close>

definition Vector3D_init :: "pyval \<Rightarrow> pyval \<Rightarrow> pyval \<Rightarrow> error + Vector3D" where
  "Vector3D_init x y z =
     bind (checked_float ''Vector3D'' ''x'' x) (\<lambda>fx.
     bind (checked_float ''Vector3D'' ''y'' y) (\<lambda>fy.
     bind (checked_float ''Vector3D'' ''z'' z) (\<lambda>fz.
     Inr \<lparr>cls = ClsVector3D, attr_x = fx, attr_y = fy, attr_z = fz\<rparr>)))"


text \<open>
  The double nearest to \<open>pi / 180\<close>, which is \<open>0.017453292519943295\<close>.
\<close>

definition deg2rad_factor :: rat where
  "deg2rad_factor = 5030569068109113 / 2 ^ 58"


subsection \<open>Arithmetic\<close>

text \<open>
  \<open>__add__\<close> and \<open>__sub__\<close> read \<open>other.x\<close>, \<open>other.y\<close>, \<open>other.z\<close> without a type
  check: an operand without these attributes raises \<open>AttributeError\<close> at \<open>other.x\<close>.
  The result is always built by \<open>Vector3D(...)\<close>, also for a \<open>Rotator3D\<close>.
\<close>

definition Vector3D_add :: "Vector3D \<Rightarrow> pyval \<Rightarrow> error + Vector3D" where
  "Vector3D_add self other =
     (case other of
        PyVec v \<Rightarrow>
          Vector3D_init (PyFloat (float_add (attr_x self) (attr_x v)))
                        (PyFloat (float_add (attr_y self) (attr_y v)))
                        (PyFloat (float_add (attr_z self) (attr_z v)))
      | _ \<Rightarrow> Inl (AttributeError (type_name other) ''x''))"

definition Vector3D_sub :: "Vector3D \<Rightarrow> pyval \<Rightarrow> error + Vector3D" where
  "Vector3D_sub self other =
     (case other of
        PyVec v \<Rightarrow>
          Vector3D_init (PyFloat (float_sub (attr_x self) (attr_x v)))
                        (PyFloat (float_sub (attr_y self) (attr_y v)))
                        (PyFloat (float_sub (attr_z self) (attr_z v)))
      | _ \<Rightarrow> Inl (AttributeError (type_name other) ''x''))"

text \<open>
  \<open>f * other\<close> and \<open>f / other\<close> for a float \<open>f\<close> and an instance of \<open>int\<close> or
  \<open>float\<close>: the operand is converted to a double first.
\<close>

definition py_float_mul :: "pyfloat \<Rightarrow> pyval \<Rightarrow> error + pyval" where
  "py_float_mul f other = bind (py_float other) (\<lambda>g. Inr (PyFloat (float_mul f g)))"

definition py_float_truediv :: "pyfloat \<Rightarrow> pyval \<Rightarrow> error + pyval" where
  "py_float_truediv f other =
     bind (py_float other) (\<lambda>g.
       if g = Fin 0 then Inl ZeroDivisionError else Inr (PyFloat (float_div f g)))"

definition Vector3D_mul :: "Vector3D \<Rightarrow> pyval \<Rightarrow> error + Vector3D" where
  "Vector3D_mul self other =
     (if \<not> isinstance_int_float other
      then Inl (TypeError ''only scalars are supported for multiplication'')
      else bind (py_float_mul (attr_x self) other) (\<lambda>px.
           bind (py_float_mul (attr_y self) other) (\<lambda>py.
           bind (py_float_mul (attr_z self) other) (\<lambda>pz.
           Vector3D_init px py pz))))"

definition Vector3D_rmul :: "Vector3D \<Rightarrow> pyval \<Rightarrow> error + Vector3D" where
  "Vector3D_rmul self other =
     (if \<not> isinstance_int_float other
      then Inl (TypeError ''only scalars are supported for multiplication'')
      else bind (py_float_mul (attr_x self) other) (\<lambda>px.
           bind (py_float_mul (attr_y self) other) (\<lambda>py.
           bind (py_float_mul (attr_z self) other) (\<lambda>pz.
           Vector3D_init px py pz))))"

definition Vector3D_truediv :: "Vector3D \<Rightarrow> pyval \<Rightarrow> error + Vector3D" where
  "Vector3D_truediv self other =
     (if \<not> isinstance_int_float other
      then Inl (TypeError ''only scalars are supported for division'')
      else bind (py_float_truediv (attr_x self) other) (\<lambda>px.
           bind (py_float_truediv (attr_y self) other) (\<lambda>py.
           bind (py_float_truediv (attr_z self) other) (\<lambda>pz.
           Vector3D_init px py pz))))"

text \<open>
  \<open>//\<close>, \<open>%\<close> and \<open>**\<close> on a float and a number are operators of the language whose
  results are not specified to the last bit (\<open>**\<close> is the C library's \<open>pow\<close>); each
  is a parameter \<open>op\<close> of the method that uses it.
\<close>

definition Vector3D_floordiv ::
  "(pyfloat \<Rightarrow> pyval \<Rightarrow> error + pyval) \<Rightarrow> Vector3D \<Rightarrow> pyval \<Rightarrow> error + Vector3D" where
  "Vector3D_floordiv op self other =
     (if \<not> isinstance_int_float other
      then Inl (TypeError ''only scalars are supported for division'')
      else bind (op (attr_x self) other) (\<lambda>px.
           bind (op (attr_y self) other) (\<lambda>py.
           bind (op (attr_z self) other) (\<lambda>pz.
           Vector3D_init px py pz))))"

definition Vector3D_mod ::
  "(pyfloat \<Rightarrow> pyval \<Rightarrow> error + pyval) \<Rightarrow> Vector3D \<Rightarrow> pyval \<Rightarrow> error + Vector3D" where
  "Vector3D_mod op self other =
     (if \<not> isinstance_int_float other
      then Inl (TypeError ''only scalars are supported for modulo'')
      else bind (op (attr_x self) other) (\<lambda>px.
           bind (op (attr_y self) other) (\<lambda>py.
           bind (op (attr_z self) other) (\<lambda>pz.
           Vector3D_init px py pz))))"

definition Vector3D_pow ::
  "(pyfloat \<Rightarrow> pyval \<Rightarrow> error + pyval) \<Rightarrow> Vector3D \<Rightarrow> pyval \<Rightarrow> error + Vector3D" where
  "Vector3D_pow op self other =
     (if \<not> isinstance_int_float other
      then Inl (TypeError ''only scalars are supported for exponentiation'')
      else bind (op (attr_x self) other) (\<lambda>px.
           bind (op (attr_y self) other) (\<lambda>py.
           bind (op (attr_z self) other) (\<lambda>pz.
           Vector3D_init px py pz))))"

subsection \<open>Comparison\<close>

definition Vector3D_eq :: "Vector3D \<Rightarrow> pyval \<Rightarrow> error + bool" where
  "Vector3D_eq self other =
     (case other of
        PyVec v \<Rightarrow>
          Inr (float_eq (attr_x self) (attr_x v)
               \<and> float_eq (attr_y self) (attr_y v)
               \<and> float_eq (attr_z self) (attr_z v))
      | _ \<Rightarrow> Inl (AttributeError (type_name other) ''x''))"

definition Vector3D_ne :: "Vector3D \<Rightarrow> pyval \<Rightarrow> error + bool" where
  "Vector3D_ne self other =
     (case other of
        PyVec v \<Rightarrow>
          Inr (float_ne (attr_x self) (attr_x v)
               \<or> float_ne (attr_y self) (attr_y v)
               \<or> float_ne (attr_z self) (attr_z v))
      | _ \<Rightarrow> Inl (AttributeError (type_name other) ''x''))"

text \<open>The four order comparisons raise whatever the operand is.\<close>

definition Vector3D_lt :: "Vector3D \<Rightarrow> pyval \<Rightarrow> error + bool" where
  "Vector3D_lt self other = Inl (NotImplementedError ''< operation not supported for Vector3D'')"

definition Vector3D_le :: "Vector3D \<Rightarrow> pyval \<Rightarrow> error + bool" where
  "Vector3D_le self other = Inl (NotImplementedError ''<= operation not supported for Vector3D'')"

definition Vector3D_gt :: "Vector3D \<Rightarrow> pyval \<Rightarrow> error + bool" where
  "Vector3D_gt self other = Inl (NotImplementedError ''> operation not supported for Vector3D'')"

definition Vector3D_ge :: "Vector3D \<Rightarrow> pyval \<Rightarrow> error + bool" where
  "Vector3D_ge self other = Inl (NotImplementedError ''>= operation not supported for Vector3D'')"

section \<open>TrackStatistics\<close>

record TrackStatistics =
  attr_timestep :: pyval
  attr_waypoints :: pyval
  attr_is_completed :: bool
  attr_distance_to_end :: pyval
  attr_data :: "(pyval \<times> pyval \<times> pyval) list"

text \<open>The check of the \<open>timestep\<close> setter; the value is stored as it is.\<close>

definition checked_timestep :: "pyval \<Rightarrow> error + pyval" where
  "checked_timestep v =
     (if \<not> isinstance_int_float v
      then Inl (type_mismatch ''Union[int, float]'' ''TrackStatistics'' ''timestep'' v)
      else Inr v)"

definition timestep_setter :: "TrackStatistics \<Rightarrow> pyval \<Rightarrow> error option \<times> TrackStatistics" where
  "timestep_setter self v =
     (case checked_timestep v of
        Inl e \<Rightarrow> (Some e, self)
      | Inr t \<Rightarrow> (None, self\<lparr>attr_timestep := t\<rparr>))"

definition timestep_getter :: "TrackStatistics \<Rightarrow> pyval" where
  "timestep_getter self = attr_timestep self"

definition waypoints_getter :: "TrackStatistics \<Rightarrow> pyval" where
  "waypoints_getter self = attr_waypoints self"

text \<open>
  \<open>TrackStatistics.__init__\<close>: the timestep goes through its setter, \<open>track.waypoints\<close>
  is read, and the other three attributes are assigned directly.
\<close>

definition TrackStatistics_init :: "pyval \<Rightarrow> pyval \<Rightarrow> error + TrackStatistics" where
  "TrackStatistics_init track timestep =
     bind (checked_timestep timestep) (\<lambda>t.
       case track of
         PyTrack n w \<Rightarrow>
           Inr \<lparr>attr_timestep = t, attr_waypoints = w, attr_is_completed = False,
                attr_distance_to_end = PyInt 0, attr_data = []\<rparr>
       | _ \<Rightarrow> Inl (AttributeError (type_name track) ''waypoints''))"

definition is_completed_getter :: "TrackStatistics \<Rightarrow> pyval" where
  "is_completed_getter self = PyBool (attr_is_completed self)"

text \<open>\<open>isinstance(value, bool)\<close> holds for \<open>True\<close> and \<open>False\<close> and for nothing else.\<close>

definition is_completed_setter ::
  "TrackStatistics \<Rightarrow> pyval \<Rightarrow> error option \<times> TrackStatistics" where
  "is_completed_setter self v =
     (case v of
        PyBool b \<Rightarrow> (None, self\<lparr>attr_is_completed := b\<rparr>)
      | _ \<Rightarrow> (Some (type_mismatch ''bool'' ''TrackStatistics'' ''is_completed'' v), self))"

definition distance_to_end_getter :: "TrackStatistics \<Rightarrow> pyval" where
  "distance_to_end_getter self = attr_distance_to_end self"

definition distance_to_end_setter ::
  "TrackStatistics \<Rightarrow> pyval \<Rightarrow> error option \<times> TrackStatistics" where
  "distance_to_end_setter self v =
     (case checked_float ''TrackStatistics'' ''distance_to_end'' v of
        Inl e \<Rightarrow> (Some e, self)
      | Inr f \<Rightarrow> (None, self\<lparr>attr_distance_to_end := PyFloat f\<rparr>))"

definition data_getter :: "TrackStatistics \<Rightarrow> (pyval \<times> pyval \<times> pyval) list" where
  "data_getter self = attr_data self"

definition add_data ::
  "TrackStatistics \<Rightarrow> pyval \<Rightarrow> pyval \<Rightarrow> pyval \<Rightarrow> error option \<times> TrackStatistics" where
  "add_data self position rotation speed =
     (if \<not> isinstance_Vector3D position
      then (Some (type_mismatch ''Vector3D'' ''TrackStatistics'' ''add_data'' position), self)
      else if \<not> isinstance_Rotator3D rotation
      then (Some (type_mismatch ''Rotator3D'' ''TrackStatistics'' ''add_data'' rotation), self)
      else if \<not> isinstance_int_float speed
      then (Some (type_mismatch ''Union[int, float]'' ''TrackStatistics'' ''add_data'' speed), self)
      else (None, self\<lparr>attr_data := attr_data self @ [(position, rotation, speed)]\<rparr>))"

section \<open>Predicates used in the statements\<close>

text \<open>
  The numbers \<open>float()\<close> converts: every float, both booleans, and the integers whose
  nearest double is finite.  The bound is the midpoint between the largest double,
  \<open>2 ^ 1024 - 2 ^ 971\<close>, and \<open>2 ^ 1024\<close>.
\<close>

fun converts_to_float :: "pyval \<Rightarrow> bool" where
  "converts_to_float (PyFloat _) = True"
| "converts_to_float (PyBool _) = True"
| "converts_to_float (PyInt a) = (\<bar>a\<bar> < 2 ^ 1024 - 2 ^ 970)"
| "converts_to_float _ = False"

text \<open>A float that is finite and a binary64 number.\<close>

fun finite_double :: "pyfloat \<Rightarrow> bool" where
  "finite_double (Fin p) = is_double p"
| "finite_double _ = False"

text \<open>Two finite floats whose exact sum is a binary64 number: adding them does not round.\<close>

fun exact_sum :: "pyfloat \<Rightarrow> pyfloat \<Rightarrow> bool" where
  "exact_sum (Fin p) (Fin q) = is_double (p + q)"
| "exact_sum _ _ = False"

section \<open>Properties of the rounding\<close>

lemma bit_length_bounds: "0 < n \<Longrightarrow> 2 ^ (bit_length n - 1) \<le> n \<and> n < 2 ^ bit_length n"
proof (induction n rule: bit_length.induct)
  case (1 n)
  show ?case
  proof (cases "\<bar>n\<bar> div 2 = 0")
    case True
    with 1 have "n = 1" by linarith
    then show ?thesis by (simp add: bit_length.simps)
  next
    case False
    with 1 have pos: "0 < \<bar>n\<bar> div 2" by linarith
    from 1 have n0: "n \<noteq> 0" by simp
    from 1(1)[OF n0 pos] have ih: "2 ^ (bit_length (\<bar>n\<bar> div 2) - 1) \<le> \<bar>n\<bar> div 2" "\<bar>n\<bar> div 2 < 2 ^ bit_length (\<bar>n\<bar> div 2)" by auto
    have bl: "bit_length n = Suc (bit_length (\<bar>n\<bar> div 2))" using n0 by (subst bit_length.simps) simp
    have blpos: "0 < bit_length (\<bar>n\<bar> div 2)" using pos by (subst bit_length.simps) simp
    then obtain k where k: "bit_length (\<bar>n\<bar> div 2) = Suc k" by (cases "bit_length (\<bar>n\<bar> div 2)") auto
    show ?thesis using ih 1(2) unfolding bl k by simp linarith
  qed
qed

lemma two_pow_powi: "two_pow k = 2 powi k"
  by (simp add: two_pow_def power_int_def field_simps)

lemma two_pow_add: "two_pow (a + b) = two_pow a * two_pow b"
  by (simp add: two_pow_powi power_int_add)

lemma two_pow_pos [simp]: "0 < two_pow k"
  by (simp add: two_pow_def)

lemma two_pow_neq0 [simp]: "two_pow k \<noteq> 0"
  by (simp add: two_pow_def)

lemma abs_two_pow [simp]: "\<bar>two_pow k\<bar> = two_pow k"
  by (simp add: two_pow_def)

lemma two_pow_nonneg [simp]: "0 \<le> two_pow k"
  using two_pow_pos [of k] by (rule less_imp_le)

lemma two_pow_nat: "two_pow (int n) = 2 ^ n"
  by (simp add: two_pow_def)

lemma two_pow_less_iff [simp]: "two_pow a < two_pow b \<longleftrightarrow> a < b"
proof
  assume "a < b" then show "two_pow a < two_pow b"
    by (simp add: two_pow_powi power_int_strict_increasing)
next
  assume l: "two_pow a < two_pow b"
  show "a < b"
  proof (rule ccontr)
    assume "\<not> a < b"
    then have "b \<le> a" by simp
    then have "two_pow b \<le> two_pow a" by (simp add: two_pow_powi power_int_increasing)
    with l show False by simp
  qed
qed

lemma two_pow_le_iff [simp]: "two_pow a \<le> two_pow b \<longleftrightarrow> a \<le> b"
  using two_pow_less_iff [of b a] by (simp only: not_less [symmetric]) 

lemma two_pow_diff: "two_pow (a - b) = two_pow a / two_pow b"
  using two_pow_add [of "a - b" b] by (simp add: field_simps)

lemma binary_exponent_bounds:
  assumes "r \<noteq> 0"
  shows "two_pow (binary_exponent r) \<le> \<bar>r\<bar> \<and> \<bar>r\<bar> < two_pow (binary_exponent r + 1)"
proof -
  obtain p q where pq: "quotient_of \<bar>r\<bar> = (p, q)" by (cases "quotient_of \<bar>r\<bar>")
  have q: "0 < q" using pq by (rule quotient_of_denom_pos)
  have r: "\<bar>r\<bar> = of_int p / of_int q" using pq by (rule quotient_of_div)
  have "0 < \<bar>r\<bar>" using assms by simp
  then have "(0::rat) < of_int p / of_int q" by (simp only: r)
  then have p: "0 < p" using q by (simp add: zero_less_divide_iff)
  define a where "a = bit_length p"
  define b where "b = bit_length q"
  define d where "d = int a - int b"
  have pa: "2 ^ (a - 1) \<le> p" "p < 2 ^ a" using bit_length_bounds [OF p] by (simp_all add: a_def)
  have qb: "2 ^ (b - 1) \<le> q" "q < 2 ^ b" using bit_length_bounds [OF q] by (simp_all add: b_def)
  have a0: "0 < a" using p unfolding a_def by (subst bit_length.simps) simp
  have b0: "0 < b" using q unfolding b_def by (subst bit_length.simps) simp
  have cast_le: "(2::rat) ^ k \<le> of_int i" if "2 ^ k \<le> i" for k i
  proof -
    have "(of_int (2 ^ k) :: rat) \<le> of_int i" using that by (simp only: of_int_le_iff)
    then show ?thesis by simp
  qed
  have cast_less: "(of_int i :: rat) < 2 ^ k" if "i < 2 ^ k" for k i
  proof -
    have "(of_int i :: rat) < of_int (2 ^ k)" using that by (simp only: of_int_less_iff)
    then show ?thesis by simp
  qed
  have pa': "(2::rat) ^ (a - 1) \<le> of_int p" "(of_int p :: rat) < 2 ^ a"
    using pa by (simp_all add: cast_le cast_less)
  have qb': "(2::rat) ^ (b - 1) \<le> of_int q" "(of_int q :: rat) < 2 ^ b"
    using qb by (simp_all add: cast_le cast_less)
  have qpos: "(0::rat) < of_int q" using q by simp
  have upper: "\<bar>r\<bar> < two_pow (d + 1)"
  proof -
    have "\<bar>r\<bar> < 2 ^ a / of_int q" unfolding r using pa'(2) qpos by (simp add: divide_strict_right_mono)
    also have "\<dots> \<le> 2 ^ a / 2 ^ (b - 1)" using qb'(1) by (simp add: frac_le)
    also have "\<dots> = two_pow (int a - int (b - 1))" by (simp add: two_pow_diff two_pow_nat)
    also have "int a - int (b - 1) = d + 1" using b0 by (simp add: d_def)
    finally show ?thesis .
  qed
  have lower: "two_pow (d - 1) \<le> \<bar>r\<bar>"
  proof -
    have "d - 1 = int (a - 1) - int b" using a0 by (cases a) (simp_all add: d_def)
    then have "two_pow (d - 1) = two_pow (int (a - 1) - int b)" by simp
    also have "\<dots> = 2 ^ (a - 1) / 2 ^ b" by (simp add: two_pow_diff two_pow_nat)
    also have "\<dots> \<le> of_int p / 2 ^ b" using pa'(1) by (simp add: divide_right_mono)
    also have "\<dots> \<le> of_int p / of_int q" using qb'(2) qpos p by (simp add: frac_le)
    finally show ?thesis unfolding r .
  qed
  have be: "binary_exponent r = (if two_pow d \<le> \<bar>r\<bar> then d else d - 1)"
    by (simp add: binary_exponent_def pq a_def b_def d_def Let_def)
  show ?thesis using upper lower unfolding be by auto
qed

lemma binary_exponent_unique:
  assumes "two_pow e \<le> \<bar>r\<bar>" and "\<bar>r\<bar> < two_pow (e + 1)"
  shows "binary_exponent r = e"
proof -
  have "0 < \<bar>r\<bar>" using assms(1) two_pow_pos [of e] by (rule less_le_trans [rotated])
  then have "r \<noteq> 0" by simp
  from binary_exponent_bounds [OF this]
  have b: "two_pow (binary_exponent r) \<le> \<bar>r\<bar>" "\<bar>r\<bar> < two_pow (binary_exponent r + 1)" by auto
  have "two_pow (binary_exponent r) < two_pow (e + 1)" using b(1) assms(2) by (rule le_less_trans)
  moreover have "two_pow e < two_pow (binary_exponent r + 1)" using assms(1) b(2) by (rule le_less_trans)
  ultimately show ?thesis by simp
qed

lemma round_half_even_of_int [simp]: "round_half_even (of_int n) = n"
  by (simp add: round_half_even_def)

lemma double_round_dyadic:
  assumes m: "\<bar>m\<bar> < 2 ^ 53" and u: "- 1074 \<le> u"
  shows "double_round (of_int m * two_pow u) = of_int m * two_pow u"
proof (cases "m = 0")
  case True
  then show ?thesis by (simp add: double_round_def)
next
  case False
  define r :: rat where "r = of_int m * two_pow u"
  have r0: "r \<noteq> 0" using False two_pow_pos [of u] by (simp add: r_def)
  define e where "e = binary_exponent r"
  have "two_pow e \<le> \<bar>r\<bar>" using binary_exponent_bounds [OF r0] by (simp add: e_def)
  also have "\<bar>r\<bar> = of_int \<bar>m\<bar> * two_pow u" by (simp add: r_def abs_mult)
  also have "\<dots> < 2 ^ 53 * two_pow u"
  proof -
    have "(of_int \<bar>m\<bar> :: rat) < of_int (2 ^ 53)" using m by (simp only: of_int_less_iff)
    then show ?thesis by simp
  qed
  also have "\<dots> = two_pow (53 + u)" using two_pow_nat [of 53] by (simp add: two_pow_add)
  finally have "e < 53 + u" by simp
  define u' where "u' = max (e - 52) (- 1074)"
  have le: "u' \<le> u" using \<open>e < 53 + u\<close> u by (simp add: u'_def)
  then obtain k where k: "u = u' + int k" by (metis zle_iff_zadd)
  have "r / two_pow u' = of_int m * two_pow (int k)"
    by (simp add: r_def k two_pow_add)
  also have "\<dots> = of_int (m * 2 ^ k)" by (simp add: two_pow_nat)
  finally have "round_half_even (r / two_pow u') = m * 2 ^ k"
    by (simp only: round_half_even_of_int)
  then have "of_int (round_half_even (r / two_pow u')) * two_pow u' = r"
    by (simp add: r_def k two_pow_add two_pow_nat)
  then show ?thesis using r0 by (simp add: double_round_def Let_def u'_def e_def r_def)
qed

lemma round_half_even_error: "\<bar>of_int (round_half_even q) - q\<bar> \<le> 1 / 2"
proof -
  have "of_int \<lfloor>q\<rfloor> \<le> q" "q < of_int \<lfloor>q\<rfloor> + 1" by linarith+
  then show ?thesis
    unfolding round_half_even_def Let_def by (auto simp: abs_le_iff)
qed

lemma double_round_error:
  assumes "r \<noteq> 0"
  shows "\<bar>double_round r - r\<bar> \<le> two_pow (max (binary_exponent r - 52) (- 1074) - 1)"
proof -
  define u where "u = max (binary_exponent r - 52) (- 1074)"
  define q where "q = r / two_pow u"
  have r: "r = q * two_pow u" by (simp add: q_def)
  have dr: "double_round r = of_int (round_half_even q) * two_pow u"
    using assms by (simp add: double_round_def Let_def u_def q_def)
  have "\<bar>double_round r - r\<bar> = \<bar>of_int (round_half_even q) - q\<bar> * two_pow u"
    unfolding dr by (subst r) (simp add: abs_mult flip: left_diff_distrib)
  also have "\<dots> \<le> (1 / 2) * two_pow u"
    using round_half_even_error [of q] by (simp add: mult_right_mono)
  also have "\<dots> = two_pow (u - 1)"
  proof -
    have "two_pow 1 = 2" by (simp add: two_pow_def)
    then show ?thesis by (simp add: two_pow_diff)
  qed
  finally show ?thesis by (simp add: u_def)
qed

lemma double_round_in_range:
  assumes "\<bar>r\<bar> < two_pow 1024 - two_pow 970"
  shows "\<bar>double_round r\<bar> < two_pow 1024"
proof (cases "r = 0")
  case True
  then show ?thesis by (simp add: double_round_def)
next
  case False
  define e where "e = binary_exponent r"
  have "two_pow e \<le> \<bar>r\<bar>" using binary_exponent_bounds [OF False] by (simp add: e_def)
  also have "\<bar>r\<bar> < two_pow 1024" using assms two_pow_pos [of 970] by linarith
  finally have e: "e \<le> 1023" by simp
  then have "max (e - 52) (- 1074) - 1 \<le> 970" by simp
  then have "two_pow (max (e - 52) (- 1074) - 1) \<le> two_pow 970" by (simp only: two_pow_le_iff)
  with double_round_error [OF False] have "\<bar>double_round r - r\<bar> \<le> two_pow 970"
    unfolding e_def by (rule order_trans)
  with assms show ?thesis by linarith
qed

lemma fl_in_range: "\<bar>r\<bar> < two_pow 1024 - two_pow 970 \<Longrightarrow> fl r = Fin (double_round r)"
  using double_round_in_range [of r] by (auto simp: fl_def Let_def)

lemma fl_dyadic:
  assumes "\<bar>m\<bar> < 2 ^ 53" and "- 1074 \<le> u" and "u \<le> 971"
  shows "fl (of_int m * two_pow u) = Fin (of_int m * two_pow u)"
proof -
  have "(of_int \<bar>m\<bar> :: rat) < of_int (2 ^ 53)" using assms(1) by (simp only: of_int_less_iff)
  then have "(of_int \<bar>m\<bar> :: rat) * two_pow u < 2 ^ 53 * two_pow u" by simp
  also have "\<dots> = two_pow (53 + u)" using two_pow_nat [of 53] by (simp add: two_pow_add)
  also have "\<dots> \<le> two_pow 1024" using assms(3) by simp
  finally have "\<bar>of_int m * two_pow u :: rat\<bar> < two_pow 1024" by (simp add: abs_mult)
  then show ?thesis using double_round_dyadic [OF assms(1,2)] by (auto simp: fl_def Let_def)
qed

lemma is_double_int: "\<bar>a\<bar> < 2 ^ 53 \<Longrightarrow> is_double (of_int a)"
  using fl_dyadic [of a 0] by (simp add: is_double_def two_pow_def)

lemma float_of_int_in_range:
  assumes "\<bar>a\<bar> < 2 ^ 1024 - 2 ^ 970"
  shows "float_of_int a = Inr (Fin (double_round (of_int a)))"
proof -
  have "(of_int \<bar>a\<bar> :: rat) < of_int (2 ^ 1024 - 2 ^ 970)" using assms by (simp only: of_int_less_iff)
  also have "(of_int (2 ^ 1024 - 2 ^ 970) :: rat) = two_pow 1024 - two_pow 970"
    by (simp add: two_pow_def)
  finally have "\<bar>of_int a :: rat\<bar> < two_pow 1024 - two_pow 970" by simp
  from double_round_in_range [OF this] show ?thesis by (simp add: float_of_int_def Let_def)
qed

lemma float_of_int_exact: "\<bar>a\<bar> < 2 ^ 53 \<Longrightarrow> float_of_int a = Inr (Fin (of_int a))"
  using double_round_dyadic [of a 0] by (simp add: float_of_int_def Let_def two_pow_def) 

lemma double_round_eval:
  assumes "two_pow e \<le> \<bar>r\<bar>" and "\<bar>r\<bar> < two_pow (e + 1)"
  shows "double_round r =
    of_int (round_half_even (r / two_pow (max (e - 52) (- 1074)))) * two_pow (max (e - 52) (- 1074))"
proof -
  have "0 < \<bar>r\<bar>" using assms(1) two_pow_pos [of e] by (rule less_le_trans [rotated])
  then have "r \<noteq> 0" by simp
  then show ?thesis using binary_exponent_unique [OF assms] by (simp add: double_round_def Let_def)
qed

lemma round_half_even_frac:
  assumes "0 < q"
  shows "round_half_even (of_int p / of_int q) =
    (if 2 * (p mod q) < q then p div q
     else if q < 2 * (p mod q) then p div q + 1
     else if even (p div q) then p div q else p div q + 1)"
proof -
  define d :: rat where "d = of_int (p mod q) / of_int q"
  have fl: "\<lfloor>(of_int p :: rat) / of_int q\<rfloor> = p div q" by (rule floor_divide_of_int_eq)
  have "(of_int p :: rat) = of_int (p div q * q + p mod q)" by simp
  also have "\<dots> = of_int (p div q) * of_int q + of_int (p mod q)" by (simp only: of_int_add of_int_mult)
  finally have dd: "(of_int p :: rat) / of_int q - of_int (p div q) = d"
    using assms by (simp add: field_simps d_def)
  have c1: "d < 1 / 2 \<longleftrightarrow> 2 * (p mod q) < q"
  proof -
    have "d < 1 / 2 \<longleftrightarrow> (of_int (2 * (p mod q)) :: rat) < of_int q"
      using assms by (simp add: field_simps d_def)
    then show ?thesis by (simp only: of_int_less_iff)
  qed
  have c2: "1 / 2 < d \<longleftrightarrow> q < 2 * (p mod q)"
  proof -
    have "1 / 2 < d \<longleftrightarrow> (of_int q :: rat) < of_int (2 * (p mod q))"
      using assms by (simp add: field_simps d_def)
    then show ?thesis by (simp only: of_int_less_iff)
  qed
  show ?thesis unfolding round_half_even_def Let_def fl dd c1 c2 ..
qed

text \<open>
  The rounded value is a binary64 number: rounding it again changes nothing.  So every
  finite result of an operation, and every converted integer, is a double.
\<close>

lemma round_half_even_bound:
  assumes "\<bar>q\<bar> < of_int n"
  shows "\<bar>round_half_even q\<bar> \<le> n"
proof -
  have "\<bar>(of_int (round_half_even q) :: rat)\<bar> \<le> \<bar>of_int (round_half_even q) - q\<bar> + \<bar>q\<bar>"
    by simp
  also have "\<dots> < of_int n + 1 / 2" using round_half_even_error [of q] assms by linarith
  finally have "(of_int \<bar>round_half_even q\<bar> :: rat) < of_int n + 1 / 2" by simp
  then have "(of_int \<bar>round_half_even q\<bar> :: rat) < of_int (n + 1)" by simp
  then have "\<bar>round_half_even q\<bar> < n + 1" by (simp only: of_int_less_iff)
  then show ?thesis by simp
qed

lemma double_round_idem: "double_round (double_round r) = double_round r"
proof (cases "r = 0")
  case True
  then show ?thesis by (simp add: double_round_def)
next
  case False
  define e where "e = binary_exponent r"
  define u where "u = max (e - 52) (- 1074)"
  define m where "m = round_half_even (r / two_pow u)"
  have dr: "double_round r = of_int m * two_pow u"
    using False by (simp add: double_round_def Let_def m_def u_def e_def)
  have u: "- 1074 \<le> u" "e - 52 \<le> u" by (simp_all add: u_def)
  have "\<bar>r\<bar> < two_pow (e + 1)" using binary_exponent_bounds [OF False] by (simp add: e_def)
  also have "\<dots> \<le> two_pow (53 + u)" using u(2) by simp
  also have "\<dots> = 2 ^ 53 * two_pow u" using two_pow_nat [of 53] by (simp add: two_pow_add)
  finally have "\<bar>r / two_pow u\<bar> < of_int (2 ^ 53)" by (simp add: field_simps)
  then have m: "\<bar>m\<bar> \<le> 2 ^ 53" unfolding m_def by (rule round_half_even_bound)
  show ?thesis
  proof (cases "\<bar>m\<bar> < 2 ^ 53")
    case True
    then show ?thesis unfolding dr using u(1) by (rule double_round_dyadic)
  next
    case False
    with m have "\<bar>m\<bar> = 2 ^ 53" by simp
    then have "m = 2 ^ 53 \<or> m = - (2 ^ 53)" by linarith
    then have "m = 2 * (m div 2)" "\<bar>m div 2\<bar> < 2 ^ 53" by auto
    then have "(of_int m :: rat) * two_pow u = of_int (m div 2) * (2 * two_pow u)"
      by (metis (no_types) mult.assoc mult.commute of_int_mult of_int_numeral)
    also have "2 * two_pow u = two_pow (u + 1)"
    proof -
      have "two_pow 1 = 2" by (simp add: two_pow_def)
      then show ?thesis by (simp add: two_pow_add)
    qed
    finally have eq: "(of_int m :: rat) * two_pow u = of_int (m div 2) * two_pow (u + 1)" .
    have "double_round (of_int (m div 2) * two_pow (u + 1)) = of_int (m div 2) * two_pow (u + 1)"
      using \<open>\<bar>m div 2\<bar> < 2 ^ 53\<close> u(1) by (intro double_round_dyadic) simp_all
    then show ?thesis unfolding dr eq .
  qed
qed

lemma fl_is_double: "fl r = Fin v \<Longrightarrow> is_double v"
proof -
  assume a: "fl r = Fin v"
  then have v: "v = double_round r" by (auto simp: fl_def Let_def split: if_splits)
  from a have "fl (double_round r) = Fin v"
    by (simp add: fl_def Let_def double_round_idem)
  then show ?thesis by (simp add: is_double_def v)
qed

lemma float_of_int_is_double: "float_of_int a = Inr f \<Longrightarrow> finite_double f"
proof -
  assume a: "float_of_int a = Inr f"
  define v where "v = double_round (rat_of_int a)"
  from a have f: "f = Fin v" and b: "\<bar>v\<bar> < two_pow 1024"
    by (auto simp: float_of_int_def Let_def v_def split: if_splits)
  from b have "fl (rat_of_int a) = Fin v" by (auto simp: fl_def Let_def v_def)
  then show ?thesis by (simp add: f fl_is_double)
qed

text \<open>
  The integers that \<open>float()\<close> refuses are exactly those from the midpoint
  \<open>2 ^ 1024 - 2 ^ 970\<close> on: there the nearest double, exponent unbounded, is
  \<open>2 ^ 1024\<close> or more.
\<close>

lemma round_half_even_lower:
  assumes "of_int n - 1 / 2 \<le> q" and "even n"
  shows "n \<le> round_half_even q"
proof -
  have fl: "of_int \<lfloor>q\<rfloor> \<le> q" "q < of_int \<lfloor>q\<rfloor> + 1" by linarith+
  show ?thesis
  proof (cases "of_int n \<le> q")
    case True
    then have "n \<le> \<lfloor>q\<rfloor>" by (simp add: le_floor_iff)
    then show ?thesis by (simp add: round_half_even_def Let_def)
  next
    case False
    then have "q < of_int n" by simp
    then have "\<lfloor>q\<rfloor> < n" by (simp add: floor_less_iff)
    moreover have "n - 1 \<le> \<lfloor>q\<rfloor>"
    proof -
      have "(of_int (n - 1) :: rat) \<le> q" using assms(1) by simp
      then show ?thesis by (simp only: le_floor_iff)
    qed
    ultimately have f: "\<lfloor>q\<rfloor> = n - 1" by simp
    then have odd: "odd \<lfloor>q\<rfloor>" using assms(2) by simp
    have "\<not> q - of_int \<lfloor>q\<rfloor> < 1 / 2" using assms(1) by (simp add: f)
    with odd show ?thesis by (simp add: round_half_even_def Let_def f)
  qed
qed

lemma round_half_even_upper:
  assumes "q \<le> of_int n + 1 / 2" and "even n"
  shows "round_half_even q \<le> n"
proof -
  have fl: "of_int \<lfloor>q\<rfloor> \<le> q" "q < of_int \<lfloor>q\<rfloor> + 1" by linarith+
  have "\<lfloor>q\<rfloor> \<le> n"
  proof -
    have "q < of_int (n + 1)" using assms(1) by simp
    then have "\<lfloor>q\<rfloor> < n + 1" by (simp only: floor_less_iff)
    then show ?thesis by simp
  qed
  show ?thesis
  proof (cases "\<lfloor>q\<rfloor> = n")
    case True
    then have "q - of_int \<lfloor>q\<rfloor> \<le> 1 / 2" using assms(1) by simp
    with True assms(2) show ?thesis by (simp add: round_half_even_def Let_def)
  next
    case False
    with \<open>\<lfloor>q\<rfloor> \<le> n\<close> have "\<lfloor>q\<rfloor> + 1 \<le> n" by simp
    then show ?thesis by (simp add: round_half_even_def Let_def)
  qed
qed

lemma round_half_even_abs_lower:
  assumes "of_int n - 1 / 2 \<le> \<bar>q\<bar>" and "even n"
  shows "n \<le> \<bar>round_half_even q\<bar>"
proof (cases "0 \<le> q")
  case True
  with assms have "n \<le> round_half_even q" by (intro round_half_even_lower) simp_all
  then show ?thesis by simp
next
  case False
  with assms(1) have "q \<le> of_int (- n) + 1 / 2" by simp
  then have "round_half_even q \<le> - n" using assms(2) by (intro round_half_even_upper) simp_all
  then show ?thesis by simp
qed

lemma double_round_overflow:
  assumes "two_pow 1024 - two_pow 970 \<le> \<bar>r\<bar>"
  shows "two_pow 1024 \<le> \<bar>double_round r\<bar>"
proof -
  have t: "two_pow 1024 = 2 ^ 53 * two_pow 971" "two_pow 971 = 2 * two_pow 970"
    using two_pow_add [of 53 971] two_pow_add [of 1 970] two_pow_nat [of 1] two_pow_nat [of 53]
    by simp_all
  have "two_pow 1023 \<le> two_pow 1024 - two_pow 970"
  proof -
    have "two_pow 970 \<le> two_pow 1023" by simp
    moreover have "two_pow 1024 = 2 * two_pow 1023"
      using two_pow_add [of 1 1023] two_pow_nat [of 1] by simp
    ultimately show ?thesis by simp
  qed
  with assms have lo: "two_pow 1023 \<le> \<bar>r\<bar>" by simp
  with two_pow_pos [of 1023] have "0 < \<bar>r\<bar>" by (rule less_le_trans)
  then have r0: "r \<noteq> 0" by simp
  define e where "e = binary_exponent r"
  have eb: "two_pow e \<le> \<bar>r\<bar>" "\<bar>r\<bar> < two_pow (e + 1)"
    using binary_exponent_bounds [OF r0] by (simp_all add: e_def)
  have "two_pow 1023 < two_pow (e + 1)" using lo eb(2) by (rule le_less_trans)
  then have e: "1023 \<le> e" by simp
  define u where "u = e - 52"
  have u: "max (e - 52) (- 1074) = u" using e by (simp add: u_def)
  define m where "m = round_half_even (r / two_pow u)"
  have dr: "double_round r = of_int m * two_pow u"
    using r0 by (simp add: double_round_def Let_def u m_def flip: e_def)
  have abs_dr: "\<bar>double_round r\<bar> = of_int \<bar>m\<bar> * two_pow u"
    by (simp add: dr abs_mult)
  have q: "\<bar>r / two_pow u\<bar> = \<bar>r\<bar> / two_pow u" by (simp add: abs_divide)
  show ?thesis
  proof (cases "e = 1023")
    case True
    then have u971: "u = 971" by (simp add: u_def)
    have "(of_int (2 ^ 53) :: rat) - 1 / 2 = (two_pow 1024 - two_pow 970) / two_pow 971"
      by (simp add: t field_simps)
    also have "\<dots> \<le> \<bar>r\<bar> / two_pow 971" using assms by (rule divide_right_mono) simp
    finally have "2 ^ 53 \<le> \<bar>m\<bar>"
      unfolding m_def u971 q [unfolded u971, symmetric] by (rule round_half_even_abs_lower) simp
    then have "(of_int (2 ^ 53) :: rat) \<le> of_int \<bar>m\<bar>" by (simp only: of_int_le_iff)
    then have "(of_int (2 ^ 53) :: rat) * two_pow 971 \<le> of_int \<bar>m\<bar> * two_pow 971"
      by (simp add: mult_right_mono)
    then show ?thesis by (simp add: abs_dr u971 t(1))
  next
    case False
    with e have e': "1024 \<le> e" by simp
    have tu: "two_pow e = 2 ^ 52 * two_pow u"
      using two_pow_add [of 52 u] two_pow_nat [of 52] by (simp add: u_def)
    have "(of_int (2 ^ 52) :: rat) - 1 / 2 \<le> 2 ^ 52" by simp
    also have "\<dots> = two_pow e / two_pow u" by (simp add: tu)
    also have "\<dots> \<le> \<bar>r\<bar> / two_pow u" using eb(1) by (rule divide_right_mono) simp
    finally have "2 ^ 52 \<le> \<bar>m\<bar>"
      unfolding m_def q [symmetric] by (rule round_half_even_abs_lower) simp
    then have "(of_int (2 ^ 52) :: rat) \<le> of_int \<bar>m\<bar>" by (simp only: of_int_le_iff)
    then have "(of_int (2 ^ 52) :: rat) * two_pow u \<le> of_int \<bar>m\<bar> * two_pow u"
      by (simp add: mult_right_mono)
    then have "two_pow e \<le> \<bar>double_round r\<bar>" by (simp add: abs_dr tu)
    moreover have "two_pow 1024 \<le> two_pow e" using e' by simp
    ultimately show ?thesis by (rule order_trans [rotated])
  qed
qed

lemma float_of_int_out_of_range:
  assumes "2 ^ 1024 - 2 ^ 970 \<le> \<bar>a\<bar>"
  shows "float_of_int a = Inl OverflowError"
proof -
  have "(of_int (2 ^ 1024 - 2 ^ 970) :: rat) \<le> of_int \<bar>a\<bar>"
    using assms by (simp only: of_int_le_iff)
  moreover have "(of_int (2 ^ 1024 - 2 ^ 970) :: rat) = two_pow 1024 - two_pow 970"
    by (simp add: two_pow_def)
  ultimately have "two_pow 1024 - two_pow 970 \<le> \<bar>of_int a :: rat\<bar>" by simp
  from double_round_overflow [OF this] show ?thesis by (simp add: float_of_int_def Let_def)
qed

lemma float_of_int_cases:
  "float_of_int a =
     (if \<bar>a\<bar> < 2 ^ 1024 - 2 ^ 970 then Inr (Fin (double_round (of_int a))) else Inl OverflowError)"
  using float_of_int_in_range [of a] float_of_int_out_of_range [of a] by (simp add: not_less)

section \<open>Properties of the conversions and checks\<close>

lemma py_float_converts:
  "converts_to_float v \<Longrightarrow> \<exists>f. py_float v = Inr f"
  by (cases v) (simp_all add: float_of_int_in_range)

lemma py_float_overflow:
  "isinstance_int_float v \<Longrightarrow> \<not> converts_to_float v \<Longrightarrow> py_float v = Inl OverflowError"
  by (cases v) (simp_all add: float_of_int_out_of_range not_less)

lemma converts_is_number: "converts_to_float v \<Longrightarrow> isinstance_int_float v"
  by (cases v) simp_all

lemma checked_float_number:
  "isinstance_int_float v \<Longrightarrow> checked_float c fld v = py_float v"
  by (simp add: checked_float_def)

lemma checked_float_other:
  "\<not> isinstance_int_float v \<Longrightarrow>
     checked_float c fld v = Inl (type_mismatch ''Union[int, float]'' c fld v)"
  by (simp add: checked_float_def)

lemma bind_Inr [simp]: "bind (Inr v) f = f v"
  by (simp add: bind_def)

lemma bind_Inl [simp]: "bind (Inl e) f = Inl e"
  by (simp add: bind_def)

lemma float_of_int_overflow: "float_of_int (2 ^ 1024) = Inl OverflowError"
proof -
  have "double_round (of_int 1 * two_pow 1024) = of_int 1 * two_pow 1024"
    by (rule double_round_dyadic) simp_all
  moreover have "(of_int (2 ^ 1024) :: rat) = two_pow 1024" by (simp add: two_pow_def)
  ultimately show ?thesis by (simp add: float_of_int_def Let_def del: of_int_power of_int_numeral)
qed

lemma Vector3D_init_floats:
  "Vector3D_init (PyFloat a) (PyFloat b) (PyFloat c)
     = Inr \<lparr>cls = ClsVector3D, attr_x = a, attr_y = b, attr_z = c\<rparr>"
  by (simp add: Vector3D_init_def checked_float_def)

lemma fl_zero: "fl 0 = Fin 0"
  by (simp add: fl_def double_round_def not_le)

lemma float_round_trip:
  "finite_double a \<Longrightarrow> exact_sum a b \<Longrightarrow> float_eq (float_sub (float_add a b) b) a"
  by (cases a; cases b) (simp_all add: is_double_def float_sub_def float_eq_def)

lemma fl_tie_2_53: "fl (1 + 9007199254740992) = Fin 9007199254740992"
proof -
  have "round_half_even (9007199254740993 / 2) = 4503599627370496"
    using round_half_even_frac [of 2 9007199254740993] by simp
  then have "double_round 9007199254740993 = 9007199254740992"
    by (subst double_round_eval [where e = 53]) (simp_all add: two_pow_def)
  then show ?thesis by (simp add: fl_def two_pow_def)
qed

lemma float_of_int_2_53: "float_of_int 9007199254740992 = Inr (Fin 9007199254740992)"
proof -
  have "double_round (of_int 1 * two_pow 53) = of_int 1 * two_pow 53"
    by (rule double_round_dyadic) simp_all
  moreover have "two_pow 53 = 9007199254740992" by (simp add: two_pow_def)
  ultimately have "double_round 9007199254740992 = 9007199254740992" by simp
  then show ?thesis by (simp add: float_of_int_def two_pow_def)
qed



text \<open>
  Bounds of \<open>pi\<close> from Machin's formula and the alternating series of the arctangent:
  the double \<open>884279719003555 / 2 ^ 48\<close>, which is \<open>3.141592653589793\<close>, is within
  \<open>10 ^ -15\<close> of \<open>pi\<close>, and the factor of \<open>np.deg2rad\<close> within \<open>10 ^ -17\<close> of
  \<open>pi / 180\<close>.
\<close>

lemma arctan_series_bounds:
  fixes x :: real
  assumes "0 \<le> x" and "x \<le> 1"
  shows "(\<Sum>i<2 * n. (- 1) ^ i * (1 / real (i * 2 + 1) * x ^ (i * 2 + 1))) \<le> arctan x"
    and "arctan x \<le> (\<Sum>i<2 * n + 1. (- 1) ^ i * (1 / real (i * 2 + 1) * x ^ (i * 2 + 1)))"
proof -
  define a where "a = (\<lambda>i. 1 / real (i * 2 + 1) * x ^ (i * 2 + 1))"
  have ax: "\<bar>x\<bar> \<le> 1" using assms by simp
  have zero: "a \<longlonglongrightarrow> 0" unfolding a_def using ax by (rule zeroseq_arctan_series)
  have pos: "0 \<le> a i" for i using assms by (simp add: a_def)
  have mono: "a (Suc i) \<le> a i" for i
  proof -
    have "x ^ (Suc i * 2 + 1) \<le> x ^ (i * 2 + 1)"
      using assms by (intro power_decreasing) simp_all
    moreover have "1 / real (Suc i * 2 + 1) \<le> 1 / real (i * 2 + 1)"
      by (intro divide_left_mono) simp_all
    ultimately show ?thesis unfolding a_def using assms
      by (intro mult_mono) simp_all
  qed
  have s: "arctan x = (\<Sum>i. (- 1) ^ i * a i)" unfolding a_def using ax by (rule arctan_series)
  show "(\<Sum>i<2 * n. (- 1) ^ i * (1 / real (i * 2 + 1) * x ^ (i * 2 + 1))) \<le> arctan x"
    using summable_Leibniz'(2) [OF zero pos mono, of n] by (simp add: s a_def)
  show "arctan x \<le> (\<Sum>i<2 * n + 1. (- 1) ^ i * (1 / real (i * 2 + 1) * x ^ (i * 2 + 1)))"
    using summable_Leibniz'(4) [OF zero pos mono, of n] by (simp add: s a_def)
qed

lemma pi_bounds: "3.1415926535897932 \<le> pi" "pi \<le> 3.1415926535897933"
proof -
  have m: "pi = 16 * arctan (1 / 5) - 4 * arctan (1 / 239)" using machin by simp
  have l5: "(\<Sum>i<2 * 6. (- 1) ^ i * (1 / real (i * 2 + 1) * (1 / 5) ^ (i * 2 + 1))) \<le> arctan (1 / 5)"
    by (rule arctan_series_bounds) simp_all
  have u5: "arctan (1 / 5) \<le> (\<Sum>i<2 * 5 + 1. (- 1) ^ i * (1 / real (i * 2 + 1) * (1 / 5) ^ (i * 2 + 1)))"
    by (rule arctan_series_bounds) simp_all
  have l239: "(\<Sum>i<2 * 2. (- 1) ^ i * (1 / real (i * 2 + 1) * (1 / 239) ^ (i * 2 + 1))) \<le> arctan (1 / 239)"
    by (rule arctan_series_bounds) simp_all
  have u239: "arctan (1 / 239) \<le> (\<Sum>i<2 * 1 + 1. (- 1) ^ i * (1 / real (i * 2 + 1) * (1 / 239) ^ (i * 2 + 1)))"
    by (rule arctan_series_bounds) simp_all
  show "3.1415926535897932 \<le> pi"
    using l5 u239 unfolding m by (simp add: eval_nat_numeral sum.lessThan_Suc)
  show "pi \<le> 3.1415926535897933"
    using u5 l239 unfolding m by (simp add: eval_nat_numeral sum.lessThan_Suc)
qed



lemma deg2rad_factor_close: "\<bar>real_of_rat deg2rad_factor - pi / 180\<bar> \<le> 1 / 10 ^ 17"
  using pi_bounds by (simp add: deg2rad_factor_def of_rat_divide abs_le_iff)




section \<open>The claims\<close>

text \<open>
  Claim C1.  For every vector or rotator \<open>self\<close> and every operand, each of \<open><\<close>,
  \<open><=\<close>, \<open>>\<close>, \<open>>=\<close> raises \<open>NotImplementedError\<close> and returns no boolean.
\<close>

theorem order_comparisons_raise:
  "Vector3D_lt self other = Inl (NotImplementedError ''< operation not supported for Vector3D'')
   \<and> Vector3D_le self other = Inl (NotImplementedError ''<= operation not supported for Vector3D'')
   \<and> Vector3D_gt self other = Inl (NotImplementedError ''> operation not supported for Vector3D'')
   \<and> Vector3D_ge self other = Inl (NotImplementedError ''>= operation not supported for Vector3D'')
   \<and> (\<forall>b. Vector3D_lt self other \<noteq> Inr b \<and> Vector3D_le self other \<noteq> Inr b
          \<and> Vector3D_gt self other \<noteq> Inr b \<and> Vector3D_ge self other \<noteq> Inr b)"
  by (simp add: Vector3D_lt_def Vector3D_le_def Vector3D_gt_def Vector3D_ge_def)

text \<open>
  Claim C2.  \<open>add_data\<close> checks the position, then the rotation, then the speed, and
  raises the type mismatch of the first check that fails; a call that raises leaves the
  object, and so its data, as it was; a call that passes the three checks appends
  exactly the triple at the end of the data.
\<close>

theorem add_data_checks_in_order:
  "(\<not> isinstance_Vector3D position \<longrightarrow>
      add_data self position rotation speed =
        (Some (type_mismatch ''Vector3D'' ''TrackStatistics'' ''add_data'' position), self))
   \<and> (isinstance_Vector3D position \<and> \<not> isinstance_Rotator3D rotation \<longrightarrow>
      add_data self position rotation speed =
        (Some (type_mismatch ''Rotator3D'' ''TrackStatistics'' ''add_data'' rotation), self))
   \<and> (isinstance_Vector3D position \<and> isinstance_Rotator3D rotation
        \<and> \<not> isinstance_int_float speed \<longrightarrow>
      add_data self position rotation speed =
        (Some (type_mismatch ''Union[int, float]'' ''TrackStatistics'' ''add_data'' speed), self))
   \<and> (isinstance_Vector3D position \<and> isinstance_Rotator3D rotation
        \<and> isinstance_int_float speed \<longrightarrow>
      add_data self position rotation speed =
        (None, self\<lparr>attr_data := attr_data self @ [(position, rotation, speed)]\<rparr>))
   \<and> (\<forall>e self'. add_data self position rotation speed = (Some e, self') \<longrightarrow>
        self' = self \<and> data_getter self' = data_getter self)
   \<and> (\<forall>self'. add_data self position rotation speed = (None, self') \<longrightarrow>
        data_getter self' = data_getter self @ [(position, rotation, speed)]
        \<and> length (data_getter self') = Suc (length (data_getter self)))"
  by (auto simp: add_data_def data_getter_def)

theorem add_data_checks_in_order_witness:
  "add_data \<lparr>attr_timestep = PyInt 1, attr_waypoints = PyList [], attr_is_completed = False,
        attr_distance_to_end = PyInt 0, attr_data = []\<rparr>
      (PyInt 1)
      (PyInt 2) (PyInt 3)
     = (Some (TypeError ''expected type Vector3D for TrackStatistics.add_data but got int instead''),
       \<lparr>attr_timestep = PyInt 1, attr_waypoints = PyList [], attr_is_completed = False,
        attr_distance_to_end = PyInt 0, attr_data = []\<rparr>)
   \<and> add_data \<lparr>attr_timestep = PyInt 1, attr_waypoints = PyList [], attr_is_completed = False,
        attr_distance_to_end = PyInt 0, attr_data = []\<rparr>
      (PyVec \<lparr>cls = ClsVector3D, attr_x = Fin 0, attr_y = Fin 0, attr_z = Fin 0\<rparr>)
      (PyVec \<lparr>cls = ClsVector3D, attr_x = Fin 0, attr_y = Fin 0, attr_z = Fin 0\<rparr>) (PyInt 5)
     = (Some (TypeError ''expected type Rotator3D for TrackStatistics.add_data but got Vector3D instead''),
       \<lparr>attr_timestep = PyInt 1, attr_waypoints = PyList [], attr_is_completed = False,
        attr_distance_to_end = PyInt 0, attr_data = []\<rparr>)
   \<and> add_data \<lparr>attr_timestep = PyInt 1, attr_waypoints = PyList [], attr_is_completed = False,
        attr_distance_to_end = PyInt 0, attr_data = []\<rparr>
      (PyVec \<lparr>cls = ClsVector3D, attr_x = Fin 0, attr_y = Fin 0, attr_z = Fin 0\<rparr>)
      (PyVec \<lparr>cls = ClsRotator3D, attr_x = Fin 0, attr_y = Fin 0, attr_z = Fin 0\<rparr>) (PyStr ''fast'')
     = (Some (TypeError ''expected type Union[int, float] for TrackStatistics.add_data but got str instead''),
       \<lparr>attr_timestep = PyInt 1, attr_waypoints = PyList [], attr_is_completed = False,
        attr_distance_to_end = PyInt 0, attr_data = []\<rparr>)
   \<and> add_data \<lparr>attr_timestep = PyInt 1, attr_waypoints = PyList [], attr_is_completed = False,
        attr_distance_to_end = PyInt 0, attr_data = []\<rparr>
      (PyVec \<lparr>cls = ClsVector3D, attr_x = Fin 0, attr_y = Fin 0, attr_z = Fin 0\<rparr>)
      (PyVec \<lparr>cls = ClsRotator3D, attr_x = Fin 0, attr_y = Fin 0, attr_z = Fin 0\<rparr>) (PyInt 5)
     = (None, \<lparr>attr_timestep = PyInt 1, attr_waypoints = PyList [], attr_is_completed = False,
        attr_distance_to_end = PyInt 0,
        attr_data = [(PyVec \<lparr>cls = ClsVector3D, attr_x = Fin 0, attr_y = Fin 0, attr_z = Fin 0\<rparr>,
                      PyVec \<lparr>cls = ClsRotator3D, attr_x = Fin 0, attr_y = Fin 0, attr_z = Fin 0\<rparr>, PyInt 5)]\<rparr>)"
proof -
  have a: "add_data \<lparr>attr_timestep = PyInt 1, attr_waypoints = PyList [], attr_is_completed = False,
        attr_distance_to_end = PyInt 0, attr_data = []\<rparr>
      (PyInt 1)
      (PyInt 2) (PyInt 3)
     = (Some (TypeError ''expected type Vector3D for TrackStatistics.add_data but got int instead''),
       \<lparr>attr_timestep = PyInt 1, attr_waypoints = PyList [], attr_is_completed = False,
        attr_distance_to_end = PyInt 0, attr_data = []\<rparr>)"
    using add_data_checks_in_order [where self = "\<lparr>attr_timestep = PyInt 1, attr_waypoints = PyList [], attr_is_completed = False,
        attr_distance_to_end = PyInt 0, attr_data = []\<rparr>"
        and position = "PyInt 1"
        and rotation = "PyInt 2" and speed = "PyInt 3", THEN conjunct1]
    by (simp add: type_mismatch_def)
  have b: "add_data \<lparr>attr_timestep = PyInt 1, attr_waypoints = PyList [], attr_is_completed = False,
        attr_distance_to_end = PyInt 0, attr_data = []\<rparr>
      (PyVec \<lparr>cls = ClsVector3D, attr_x = Fin 0, attr_y = Fin 0, attr_z = Fin 0\<rparr>)
      (PyVec \<lparr>cls = ClsVector3D, attr_x = Fin 0, attr_y = Fin 0, attr_z = Fin 0\<rparr>) (PyInt 5)
     = (Some (TypeError ''expected type Rotator3D for TrackStatistics.add_data but got Vector3D instead''),
       \<lparr>attr_timestep = PyInt 1, attr_waypoints = PyList [], attr_is_completed = False,
        attr_distance_to_end = PyInt 0, attr_data = []\<rparr>)"
    using add_data_checks_in_order [where self = "\<lparr>attr_timestep = PyInt 1, attr_waypoints = PyList [], attr_is_completed = False,
        attr_distance_to_end = PyInt 0, attr_data = []\<rparr>"
        and position = "PyVec \<lparr>cls = ClsVector3D, attr_x = Fin 0, attr_y = Fin 0, attr_z = Fin 0\<rparr>"
        and rotation = "PyVec \<lparr>cls = ClsVector3D, attr_x = Fin 0, attr_y = Fin 0, attr_z = Fin 0\<rparr>" and speed = "PyInt 5", THEN conjunct2, THEN conjunct1]
    by (simp add: type_mismatch_def)
  have c: "add_data \<lparr>attr_timestep = PyInt 1, attr_waypoints = PyList [], attr_is_completed = False,
        attr_distance_to_end = PyInt 0, attr_data = []\<rparr>
      (PyVec \<lparr>cls = ClsVector3D, attr_x = Fin 0, attr_y = Fin 0, attr_z = Fin 0\<rparr>)
      (PyVec \<lparr>cls = ClsRotator3D, attr_x = Fin 0, attr_y = Fin 0, attr_z = Fin 0\<rparr>) (PyStr ''fast'')
     = (Some (TypeError ''expected type Union[int, float] for TrackStatistics.add_data but got str instead''),
       \<lparr>attr_timestep = PyInt 1, attr_waypoints = PyList [], attr_is_completed = False,
        attr_distance_to_end = PyInt 0, attr_data = []\<rparr>)"
    using add_data_checks_in_order [where self = "\<lparr>attr_timestep = PyInt 1, attr_waypoints = PyList [], attr_is_completed = False,
        attr_distance_to_end = PyInt 0, attr_data = []\<rparr>"
        and position = "PyVec \<lparr>cls = ClsVector3D, attr_x = Fin 0, attr_y = Fin 0, attr_z = Fin 0\<rparr>"
        and rotation = "PyVec \<lparr>cls = ClsRotator3D, attr_x = Fin 0, attr_y = Fin 0, attr_z = Fin 0\<rparr>" and speed = "PyStr ''fast''", THEN conjunct2, THEN conjunct2, THEN conjunct1]
    by (simp add: type_mismatch_def)
  have d: "add_data \<lparr>attr_timestep = PyInt 1, attr_waypoints = PyList [], attr_is_completed = False,
        attr_distance_to_end = PyInt 0, attr_data = []\<rparr>
      (PyVec \<lparr>cls = ClsVector3D, attr_x = Fin 0, attr_y = Fin 0, attr_z = Fin 0\<rparr>)
      (PyVec \<lparr>cls = ClsRotator3D, attr_x = Fin 0, attr_y = Fin 0, attr_z = Fin 0\<rparr>) (PyInt 5)
     = (None, \<lparr>attr_timestep = PyInt 1, attr_waypoints = PyList [], attr_is_completed = False,
        attr_distance_to_end = PyInt 0,
        attr_data = [(PyVec \<lparr>cls = ClsVector3D, attr_x = Fin 0, attr_y = Fin 0, attr_z = Fin 0\<rparr>,
                      PyVec \<lparr>cls = ClsRotator3D, attr_x = Fin 0, attr_y = Fin 0, attr_z = Fin 0\<rparr>, PyInt 5)]\<rparr>)"
    using add_data_checks_in_order [where self = "\<lparr>attr_timestep = PyInt 1, attr_waypoints = PyList [], attr_is_completed = False,
        attr_distance_to_end = PyInt 0, attr_data = []\<rparr>"
        and position = "PyVec \<lparr>cls = ClsVector3D, attr_x = Fin 0, attr_y = Fin 0, attr_z = Fin 0\<rparr>"
        and rotation = "PyVec \<lparr>cls = ClsRotator3D, attr_x = Fin 0, attr_y = Fin 0, attr_z = Fin 0\<rparr>" and speed = "PyInt 5", THEN conjunct2, THEN conjunct2, THEN conjunct2, THEN conjunct1]
    by (simp add: type_mismatch_def)
  from a b c d show ?thesis by (intro conjI)
qed

text \<open>
  Claim C8.  The \<open>is_completed\<close> setter stores a boolean as it is; every other value,
  the integers 0 and 1 among them, raises a type mismatch and leaves the object as it
  was.
\<close>

theorem is_completed_strict_bool:
  "is_completed_setter self (PyBool b) = (None, self\<lparr>attr_is_completed := b\<rparr>)
   \<and> is_completed_getter (snd (is_completed_setter self (PyBool b))) = PyBool b
   \<and> (\<not> isinstance_bool v \<longrightarrow>
        is_completed_setter self v =
          (Some (type_mismatch ''bool'' ''TrackStatistics'' ''is_completed'' v), self))
   \<and> is_completed_setter self (PyInt 0) =
        (Some (TypeError ''expected type bool for TrackStatistics.is_completed but got int instead''), self)
   \<and> is_completed_setter self (PyInt 1) =
        (Some (TypeError ''expected type bool for TrackStatistics.is_completed but got int instead''), self)"
  by (cases v) (simp_all add: is_completed_setter_def is_completed_getter_def type_mismatch_def)

theorem is_completed_strict_bool_witness:
  "\<not> isinstance_bool (PyFloat (Fin 1))
   \<and> is_completed_setter \<lparr>attr_timestep = PyInt 1, attr_waypoints = PyList [],
          attr_is_completed = True, attr_distance_to_end = PyInt 0, attr_data = []\<rparr> (PyFloat (Fin 1))
     = (Some (TypeError ''expected type bool for TrackStatistics.is_completed but got float instead''),
        \<lparr>attr_timestep = PyInt 1, attr_waypoints = PyList [],
          attr_is_completed = True, attr_distance_to_end = PyInt 0, attr_data = []\<rparr>)"
  using is_completed_strict_bool [where v = "PyFloat (Fin 1)" and self = "\<lparr>attr_timestep = PyInt 1, attr_waypoints = PyList [],
          attr_is_completed = True, attr_distance_to_end = PyInt 0, attr_data = []\<rparr>"]
  by (simp add: type_mismatch_def)

text \<open>
  Claim C9.  A \<open>Rotator3D\<close> is an instance of \<open>Vector3D\<close>, so \<open>add_data\<close> accepts it
  as the position: with a rotator as rotation and a number as speed the triple is
  appended.
\<close>

theorem add_data_accepts_rotator_position:
  "cls p = ClsRotator3D \<Longrightarrow> cls r = ClsRotator3D \<Longrightarrow> isinstance_int_float speed \<Longrightarrow>
     isinstance_Vector3D (PyVec p)
     \<and> add_data self (PyVec p) (PyVec r) speed =
         (None, self\<lparr>attr_data := attr_data self @ [(PyVec p, PyVec r, speed)]\<rparr>)"
  by (simp add: add_data_def)

theorem add_data_accepts_rotator_position_witness:
  "add_data \<lparr>attr_timestep = PyInt 1, attr_waypoints = PyList [], attr_is_completed = False,
              attr_distance_to_end = PyInt 0, attr_data = []\<rparr>
     (PyVec \<lparr>cls = ClsRotator3D, attr_x = Fin 1, attr_y = Fin 0, attr_z = Fin 0\<rparr>)
     (PyVec \<lparr>cls = ClsRotator3D, attr_x = Fin 0, attr_y = Fin 0, attr_z = Fin 0\<rparr>)
     (PyInt 7)
   = (None, \<lparr>attr_timestep = PyInt 1, attr_waypoints = PyList [], attr_is_completed = False,
              attr_distance_to_end = PyInt 0,
              attr_data = [(PyVec \<lparr>cls = ClsRotator3D, attr_x = Fin 1, attr_y = Fin 0, attr_z = Fin 0\<rparr>,
                            PyVec \<lparr>cls = ClsRotator3D, attr_x = Fin 0, attr_y = Fin 0, attr_z = Fin 0\<rparr>,
                            PyInt 7)]\<rparr>)"
  using add_data_accepts_rotator_position
    [where p = "\<lparr>cls = ClsRotator3D, attr_x = Fin 1, attr_y = Fin 0, attr_z = Fin 0\<rparr>"
       and r = "\<lparr>cls = ClsRotator3D, attr_x = Fin 0, attr_y = Fin 0, attr_z = Fin 0\<rparr>"
       and speed = "PyInt 7"
       and self = "\<lparr>attr_timestep = PyInt 1, attr_waypoints = PyList [], attr_is_completed = False,
              attr_distance_to_end = PyInt 0, attr_data = []\<rparr>"]
  by simp

text \<open>
  Claim C10.  Right after construction \<open>distance_to_end\<close> is the integer 0, which
  \<open>__init__\<close> assigns to the attribute without the setter; every value the setter
  stores is a float.
\<close>

theorem initial_distance_to_end_is_int:
  "TrackStatistics_init track timestep = Inr self \<Longrightarrow>
     distance_to_end_getter self = PyInt 0
     \<and> type_name (distance_to_end_getter self) = ''int''
     \<and> (\<forall>v self'. distance_to_end_setter self v = (None, self') \<longrightarrow>
           (\<exists>f. distance_to_end_getter self' = PyFloat f)
           \<and> type_name (distance_to_end_getter self') = ''float'')"
  by (auto simp: TrackStatistics_init_def bind_def distance_to_end_getter_def
        distance_to_end_setter_def split: sum.splits pyval.splits)

theorem initial_distance_to_end_is_int_witness:
  "TrackStatistics_init (PyTrack ''Track'' (PyList [])) (PyInt 1)
     = Inr \<lparr>attr_timestep = PyInt 1, attr_waypoints = PyList [], attr_is_completed = False,
            attr_distance_to_end = PyInt 0, attr_data = []\<rparr>
   \<and> distance_to_end_getter \<lparr>attr_timestep = PyInt 1, attr_waypoints = PyList [],
        attr_is_completed = False, attr_distance_to_end = PyInt 0, attr_data = []\<rparr> = PyInt 0
   \<and> distance_to_end_setter \<lparr>attr_timestep = PyInt 1, attr_waypoints = PyList [],
        attr_is_completed = False, attr_distance_to_end = PyInt 0, attr_data = []\<rparr> (PyInt 0)
     = (None, \<lparr>attr_timestep = PyInt 1, attr_waypoints = PyList [],
        attr_is_completed = False, attr_distance_to_end = PyFloat (Fin 0), attr_data = []\<rparr>)"
proof -
  have i: "TrackStatistics_init (PyTrack ''Track'' (PyList [])) (PyInt 1)
     = Inr \<lparr>attr_timestep = PyInt 1, attr_waypoints = PyList [], attr_is_completed = False,
            attr_distance_to_end = PyInt 0, attr_data = []\<rparr>"
    by (simp add: TrackStatistics_init_def bind_def checked_timestep_def)
  have s: "distance_to_end_setter \<lparr>attr_timestep = PyInt 1, attr_waypoints = PyList [],
        attr_is_completed = False, attr_distance_to_end = PyInt 0, attr_data = []\<rparr> (PyInt 0)
     = (None, \<lparr>attr_timestep = PyInt 1, attr_waypoints = PyList [],
        attr_is_completed = False, attr_distance_to_end = PyFloat (Fin 0), attr_data = []\<rparr>)"
    using float_of_int_exact [of 0]
    by (simp add: distance_to_end_setter_def checked_float_def)
  show ?thesis using initial_distance_to_end_is_int [OF i] i s by simp
qed

text \<open>
  Claim C3, as amended.  For numbers that \<open>float()\<close> converts (every float, both
  booleans, every integer whose nearest double is finite) the constructor succeeds and
  \<open>x\<close>, \<open>y\<close>, \<open>z\<close> read back as \<open>float(a)\<close>, \<open>float(b)\<close>, \<open>float(c)\<close>.  The first
  component that is no instance of \<open>int\<close> or \<open>float\<close>, the ones before it being
  convertible, raises the type mismatch that names its field and its type.  An integer
  that \<open>float()\<close> does not convert raises \<open>OverflowError\<close>.
\<close>

theorem Vector3D_init_reads_back:
  "(converts_to_float a \<and> converts_to_float b \<and> converts_to_float c \<longrightarrow>
      (\<exists>v fa fb fc.
         py_float a = Inr fa \<and> py_float b = Inr fb \<and> py_float c = Inr fc
         \<and> Vector3D_init a b c = Inr v \<and> cls v = ClsVector3D
         \<and> x_getter v = PyFloat fa \<and> y_getter v = PyFloat fb \<and> z_getter v = PyFloat fc))
   \<and> (\<not> isinstance_int_float a \<longrightarrow>
        Vector3D_init a b c = Inl (type_mismatch ''Union[int, float]'' ''Vector3D'' ''x'' a))
   \<and> (converts_to_float a \<and> \<not> isinstance_int_float b \<longrightarrow>
        Vector3D_init a b c = Inl (type_mismatch ''Union[int, float]'' ''Vector3D'' ''y'' b))
   \<and> (converts_to_float a \<and> converts_to_float b \<and> \<not> isinstance_int_float c \<longrightarrow>
        Vector3D_init a b c = Inl (type_mismatch ''Union[int, float]'' ''Vector3D'' ''z'' c))
   \<and> (isinstance_int_float a \<and> \<not> converts_to_float a \<longrightarrow>
        Vector3D_init a b c = Inl OverflowError)"
proof (intro conjI impI)
  assume h: "converts_to_float a \<and> converts_to_float b \<and> converts_to_float c"
  then obtain fa fb fc where f: "py_float a = Inr fa" "py_float b = Inr fb" "py_float c = Inr fc"
    using py_float_converts by blast
  from h have "isinstance_int_float a" "isinstance_int_float b" "isinstance_int_float c"
    by (simp_all add: converts_is_number)
  then have "Vector3D_init a b c = Inr \<lparr>cls = ClsVector3D, attr_x = fa, attr_y = fb, attr_z = fc\<rparr>"
    by (simp add: Vector3D_init_def checked_float_number f)
  with f show "\<exists>v fa fb fc.
         py_float a = Inr fa \<and> py_float b = Inr fb \<and> py_float c = Inr fc
         \<and> Vector3D_init a b c = Inr v \<and> cls v = ClsVector3D
         \<and> x_getter v = PyFloat fa \<and> y_getter v = PyFloat fb \<and> z_getter v = PyFloat fc"
    by (simp add: x_getter_def y_getter_def z_getter_def)
next
  assume "\<not> isinstance_int_float a"
  then show "Vector3D_init a b c = Inl (type_mismatch ''Union[int, float]'' ''Vector3D'' ''x'' a)"
    by (simp add: Vector3D_init_def checked_float_other)
next
  assume h: "converts_to_float a \<and> \<not> isinstance_int_float b"
  then obtain fa where "py_float a = Inr fa" using py_float_converts by blast
  with h show "Vector3D_init a b c = Inl (type_mismatch ''Union[int, float]'' ''Vector3D'' ''y'' b)"
    by (simp add: Vector3D_init_def checked_float_other checked_float_number converts_is_number)
next
  assume h: "converts_to_float a \<and> converts_to_float b \<and> \<not> isinstance_int_float c"
  then obtain fa fb where "py_float a = Inr fa" "py_float b = Inr fb"
    using py_float_converts by blast
  with h show "Vector3D_init a b c = Inl (type_mismatch ''Union[int, float]'' ''Vector3D'' ''z'' c)"
    by (simp add: Vector3D_init_def checked_float_other checked_float_number converts_is_number)
next
  assume "isinstance_int_float a \<and> \<not> converts_to_float a"
  then show "Vector3D_init a b c = Inl OverflowError"
    by (simp add: Vector3D_init_def checked_float_number py_float_overflow)
qed

theorem Vector3D_init_reads_back_witness:
  "(converts_to_float (PyInt 3) \<and> converts_to_float (PyFloat (Fin (1 / 2)))
      \<and> converts_to_float (PyBool True)
      \<and> (\<exists>v fa fb fc.
           py_float (PyInt 3) = Inr fa \<and> py_float (PyFloat (Fin (1 / 2))) = Inr fb
           \<and> py_float (PyBool True) = Inr fc
           \<and> Vector3D_init (PyInt 3) (PyFloat (Fin (1 / 2))) (PyBool True) = Inr v
           \<and> cls v = ClsVector3D
           \<and> x_getter v = PyFloat fa \<and> y_getter v = PyFloat fb \<and> z_getter v = PyFloat fc))
   \<and> Vector3D_init (PyStr ''a'') (PyInt 0) (PyInt 0)
       = Inl (TypeError ''expected type Union[int, float] for Vector3D.x but got str instead'')
   \<and> Vector3D_init (PyInt 0) PyNone (PyInt 0)
       = Inl (TypeError ''expected type Union[int, float] for Vector3D.y but got NoneType instead'')
   \<and> Vector3D_init (PyInt 0) (PyInt 0) (PyList [])
       = Inl (TypeError ''expected type Union[int, float] for Vector3D.z but got list instead'')
   \<and> Vector3D_init (PyInt (- (2 ^ 1024))) (PyInt 0) (PyInt 0) = Inl OverflowError"
proof -
  have small: "converts_to_float (PyInt 0)" "converts_to_float (PyInt 3)" by simp_all
  have a: "converts_to_float (PyInt 3) \<and> converts_to_float (PyFloat (Fin (1 / 2)))
      \<and> converts_to_float (PyBool True)
      \<and> (\<exists>v fa fb fc.
           py_float (PyInt 3) = Inr fa \<and> py_float (PyFloat (Fin (1 / 2))) = Inr fb
           \<and> py_float (PyBool True) = Inr fc
           \<and> Vector3D_init (PyInt 3) (PyFloat (Fin (1 / 2))) (PyBool True) = Inr v
           \<and> cls v = ClsVector3D
           \<and> x_getter v = PyFloat fa \<and> y_getter v = PyFloat fb \<and> z_getter v = PyFloat fc)"
    using Vector3D_init_reads_back [where a = "PyInt 3" and b = "PyFloat (Fin (1 / 2))"
        and c = "PyBool True", THEN conjunct1] small
    by (simp only: converts_to_float.simps simp_thms)
  have b: "Vector3D_init (PyStr ''a'') (PyInt 0) (PyInt 0)
       = Inl (TypeError ''expected type Union[int, float] for Vector3D.x but got str instead'')"
    using Vector3D_init_reads_back [where a = "PyStr ''a''" and b = "PyInt 0" and c = "PyInt 0",
        THEN conjunct2, THEN conjunct1]
    by (simp add: type_mismatch_def)
  have c: "Vector3D_init (PyInt 0) PyNone (PyInt 0)
       = Inl (TypeError ''expected type Union[int, float] for Vector3D.y but got NoneType instead'')"
    using Vector3D_init_reads_back [where a = "PyInt 0" and b = PyNone and c = "PyInt 0",
        THEN conjunct2, THEN conjunct2, THEN conjunct1] small(1)
    by (simp add: type_mismatch_def del: converts_to_float.simps)
  have d: "Vector3D_init (PyInt 0) (PyInt 0) (PyList [])
       = Inl (TypeError ''expected type Union[int, float] for Vector3D.z but got list instead'')"
    using Vector3D_init_reads_back [where a = "PyInt 0" and b = "PyInt 0" and c = "PyList []",
        THEN conjunct2, THEN conjunct2, THEN conjunct2, THEN conjunct1] small(1)
    by (simp add: type_mismatch_def del: converts_to_float.simps)
  have e: "Vector3D_init (PyInt (- (2 ^ 1024))) (PyInt 0) (PyInt 0) = Inl OverflowError"
    using Vector3D_init_reads_back [where a = "PyInt (- (2 ^ 1024))" and b = "PyInt 0"
        and c = "PyInt 0", THEN conjunct2, THEN conjunct2, THEN conjunct2, THEN conjunct2]
    by simp
  show ?thesis by (rule conjI [OF a conjI [OF b conjI [OF c conjI [OF d e]]]])
qed

text \<open>
  Claim C3 as stated fails: \<open>2 ^ 1024\<close> is an integer, and the constructor raises
  \<open>OverflowError\<close> on it, since \<open>float(2 ** 1024)\<close> does.
\<close>

theorem Vector3D_init_overflow_counterexample:
  "isinstance_int_float (PyInt (2 ^ 1024))
   \<and> Vector3D_init (PyInt (2 ^ 1024)) (PyInt 0) (PyInt 0) = Inl OverflowError"
  using float_of_int_overflow
  by (simp add: Vector3D_init_def checked_float_def del: power_numeral)

text \<open>
  Claim C5, as amended.  A value that is no instance of \<open>int\<close> or \<open>float\<close> (a string,
  \<open>None\<close>, a list, a vector) is rejected with a type mismatch by the component
  setters, by the scalar operand of \<open>*\<close>, \<open>/\<close>, \<open>//\<close>, \<open>%\<close>, \<open>**\<close>, and by the
  timestep, distance and speed inputs.  A boolean is an instance of \<open>int\<close> and is
  accepted by all of them: the component and distance setters store 1.0 or 0.0, the
  timestep and the speed are stored as the boolean, and \<open>*\<close> and \<open>/\<close> take it as 1.0
  or 0.0.
\<close>

theorem numbers_checked_booleans_accepted:
  "(\<not> isinstance_int_float v \<longrightarrow>
      x_setter self v
        = (Some (type_mismatch ''Union[int, float]'' (class_name (cls self)) ''x'' v), self)
      \<and> y_setter self v
        = (Some (type_mismatch ''Union[int, float]'' (class_name (cls self)) ''y'' v), self)
      \<and> z_setter self v
        = (Some (type_mismatch ''Union[int, float]'' (class_name (cls self)) ''z'' v), self)
      \<and> Vector3D_mul self v = Inl (TypeError ''only scalars are supported for multiplication'')
      \<and> Vector3D_rmul self v = Inl (TypeError ''only scalars are supported for multiplication'')
      \<and> Vector3D_truediv self v = Inl (TypeError ''only scalars are supported for division'')
      \<and> Vector3D_floordiv op self v = Inl (TypeError ''only scalars are supported for division'')
      \<and> Vector3D_mod op self v = Inl (TypeError ''only scalars are supported for modulo'')
      \<and> Vector3D_pow op self v
        = Inl (TypeError ''only scalars are supported for exponentiation'')
      \<and> timestep_setter stats v
        = (Some (type_mismatch ''Union[int, float]'' ''TrackStatistics'' ''timestep'' v), stats)
      \<and> distance_to_end_setter stats v
        = (Some (type_mismatch ''Union[int, float]'' ''TrackStatistics'' ''distance_to_end'' v),
           stats)
      \<and> (isinstance_Vector3D position \<and> isinstance_Rotator3D rotation \<longrightarrow>
           add_data stats position rotation v
             = (Some (type_mismatch ''Union[int, float]'' ''TrackStatistics'' ''add_data'' v),
                stats)))
   \<and> isinstance_int_float (PyBool b)
   \<and> x_setter self (PyBool b) = (None, self\<lparr>attr_x := Fin (if b then 1 else 0)\<rparr>)
   \<and> y_setter self (PyBool b) = (None, self\<lparr>attr_y := Fin (if b then 1 else 0)\<rparr>)
   \<and> z_setter self (PyBool b) = (None, self\<lparr>attr_z := Fin (if b then 1 else 0)\<rparr>)
   \<and> Vector3D_mul self (PyBool b) = Vector3D_mul self (PyFloat (Fin (if b then 1 else 0)))
   \<and> Vector3D_rmul self (PyBool b) = Vector3D_rmul self (PyFloat (Fin (if b then 1 else 0)))
   \<and> Vector3D_truediv self (PyBool b)
        = Vector3D_truediv self (PyFloat (Fin (if b then 1 else 0)))
   \<and> timestep_setter stats (PyBool b) = (None, stats\<lparr>attr_timestep := PyBool b\<rparr>)
   \<and> distance_to_end_setter stats (PyBool b)
        = (None, stats\<lparr>attr_distance_to_end := PyFloat (Fin (if b then 1 else 0))\<rparr>)
   \<and> (isinstance_Vector3D position \<and> isinstance_Rotator3D rotation \<longrightarrow>
        add_data stats position rotation (PyBool b)
          = (None, stats\<lparr>attr_data := attr_data stats @ [(position, rotation, PyBool b)]\<rparr>))"
proof -
  have reject: "\<not> isinstance_int_float v \<longrightarrow>
      x_setter self v
        = (Some (type_mismatch ''Union[int, float]'' (class_name (cls self)) ''x'' v), self)
      \<and> y_setter self v
        = (Some (type_mismatch ''Union[int, float]'' (class_name (cls self)) ''y'' v), self)
      \<and> z_setter self v
        = (Some (type_mismatch ''Union[int, float]'' (class_name (cls self)) ''z'' v), self)
      \<and> Vector3D_mul self v = Inl (TypeError ''only scalars are supported for multiplication'')
      \<and> Vector3D_rmul self v = Inl (TypeError ''only scalars are supported for multiplication'')
      \<and> Vector3D_truediv self v = Inl (TypeError ''only scalars are supported for division'')
      \<and> Vector3D_floordiv op self v = Inl (TypeError ''only scalars are supported for division'')
      \<and> Vector3D_mod op self v = Inl (TypeError ''only scalars are supported for modulo'')
      \<and> Vector3D_pow op self v
        = Inl (TypeError ''only scalars are supported for exponentiation'')
      \<and> timestep_setter stats v
        = (Some (type_mismatch ''Union[int, float]'' ''TrackStatistics'' ''timestep'' v), stats)
      \<and> distance_to_end_setter stats v
        = (Some (type_mismatch ''Union[int, float]'' ''TrackStatistics'' ''distance_to_end'' v),
           stats)
      \<and> (isinstance_Vector3D position \<and> isinstance_Rotator3D rotation \<longrightarrow>
           add_data stats position rotation v
             = (Some (type_mismatch ''Union[int, float]'' ''TrackStatistics'' ''add_data'' v),
                stats))"
    by (simp add: x_setter_def y_setter_def z_setter_def checked_float_other
          Vector3D_mul_def Vector3D_rmul_def Vector3D_truediv_def Vector3D_floordiv_def
          Vector3D_mod_def Vector3D_pow_def timestep_setter_def checked_timestep_def
          distance_to_end_setter_def add_data_def)
  have setters: "x_setter self (PyBool b) = (None, self\<lparr>attr_x := Fin (if b then 1 else 0)\<rparr>)"
    "y_setter self (PyBool b) = (None, self\<lparr>attr_y := Fin (if b then 1 else 0)\<rparr>)"
    "z_setter self (PyBool b) = (None, self\<lparr>attr_z := Fin (if b then 1 else 0)\<rparr>)"
    by (simp_all add: x_setter_def y_setter_def z_setter_def checked_float_def)
  have ops: "Vector3D_mul self (PyBool b) = Vector3D_mul self (PyFloat (Fin (if b then 1 else 0)))"
    "Vector3D_rmul self (PyBool b) = Vector3D_rmul self (PyFloat (Fin (if b then 1 else 0)))"
    "Vector3D_truediv self (PyBool b)
        = Vector3D_truediv self (PyFloat (Fin (if b then 1 else 0)))"
    by (simp_all add: Vector3D_mul_def Vector3D_rmul_def Vector3D_truediv_def
          py_float_mul_def py_float_truediv_def)
  have stats: "timestep_setter stats (PyBool b) = (None, stats\<lparr>attr_timestep := PyBool b\<rparr>)"
    "distance_to_end_setter stats (PyBool b)
        = (None, stats\<lparr>attr_distance_to_end := PyFloat (Fin (if b then 1 else 0))\<rparr>)"
    "isinstance_Vector3D position \<and> isinstance_Rotator3D rotation \<longrightarrow>
        add_data stats position rotation (PyBool b)
          = (None, stats\<lparr>attr_data := attr_data stats @ [(position, rotation, PyBool b)]\<rparr>)"
    by (simp_all add: timestep_setter_def checked_timestep_def distance_to_end_setter_def
          checked_float_def add_data_def)
  have num: "isinstance_int_float (PyBool b)" by simp
  show ?thesis
    by (intro conjI reject num setters ops stats)
qed

theorem numbers_checked_booleans_accepted_witness:
  "x_setter \<lparr>cls = ClsVector3D, attr_x = Fin 0, attr_y = Fin 0, attr_z = Fin 0\<rparr> (PyStr ''1.5'')
     = (Some (TypeError ''expected type Union[int, float] for Vector3D.x but got str instead''),
        \<lparr>cls = ClsVector3D, attr_x = Fin 0, attr_y = Fin 0, attr_z = Fin 0\<rparr>)
   \<and> Vector3D_mul \<lparr>cls = ClsVector3D, attr_x = Fin 0, attr_y = Fin 0, attr_z = Fin 0\<rparr> (PyStr ''1.5'')
     = Inl (TypeError ''only scalars are supported for multiplication'')
   \<and> timestep_setter \<lparr>attr_timestep = PyInt 1, attr_waypoints = PyList [], attr_is_completed = False,
        attr_distance_to_end = PyInt 0, attr_data = []\<rparr> (PyStr ''1.5'')
     = (Some (TypeError ''expected type Union[int, float] for TrackStatistics.timestep but got str instead''),
        \<lparr>attr_timestep = PyInt 1, attr_waypoints = PyList [], attr_is_completed = False,
        attr_distance_to_end = PyInt 0, attr_data = []\<rparr>)
   \<and> add_data \<lparr>attr_timestep = PyInt 1, attr_waypoints = PyList [], attr_is_completed = False,
        attr_distance_to_end = PyInt 0, attr_data = []\<rparr>
       (PyVec \<lparr>cls = ClsVector3D, attr_x = Fin 0, attr_y = Fin 0, attr_z = Fin 0\<rparr>)
       (PyVec \<lparr>cls = ClsRotator3D, attr_x = Fin 0, attr_y = Fin 0, attr_z = Fin 0\<rparr>) (PyStr ''1.5'')
     = (Some (TypeError ''expected type Union[int, float] for TrackStatistics.add_data but got str instead''),
        \<lparr>attr_timestep = PyInt 1, attr_waypoints = PyList [], attr_is_completed = False,
        attr_distance_to_end = PyInt 0, attr_data = []\<rparr>)
   \<and> add_data \<lparr>attr_timestep = PyInt 1, attr_waypoints = PyList [], attr_is_completed = False,
        attr_distance_to_end = PyInt 0, attr_data = []\<rparr>
       (PyVec \<lparr>cls = ClsVector3D, attr_x = Fin 0, attr_y = Fin 0, attr_z = Fin 0\<rparr>)
       (PyVec \<lparr>cls = ClsRotator3D, attr_x = Fin 0, attr_y = Fin 0, attr_z = Fin 0\<rparr>) (PyBool True)
     = (None, \<lparr>attr_timestep = PyInt 1, attr_waypoints = PyList [], attr_is_completed = False,
        attr_distance_to_end = PyInt 0, attr_data = [(PyVec \<lparr>cls = ClsVector3D, attr_x = Fin 0, attr_y = Fin 0, attr_z = Fin 0\<rparr>,
                      PyVec \<lparr>cls = ClsRotator3D, attr_x = Fin 0, attr_y = Fin 0, attr_z = Fin 0\<rparr>, PyBool True)]\<rparr>)"
proof -
  note t = numbers_checked_booleans_accepted
      [where v = "PyStr ''1.5''" and self = "\<lparr>cls = ClsVector3D, attr_x = Fin 0, attr_y = Fin 0, attr_z = Fin 0\<rparr>"
         and stats = "\<lparr>attr_timestep = PyInt 1, attr_waypoints = PyList [], attr_is_completed = False,
        attr_distance_to_end = PyInt 0, attr_data = []\<rparr>"
         and position = "PyVec \<lparr>cls = ClsVector3D, attr_x = Fin 0, attr_y = Fin 0, attr_z = Fin 0\<rparr>"
         and rotation = "PyVec \<lparr>cls = ClsRotator3D, attr_x = Fin 0, attr_y = Fin 0, attr_z = Fin 0\<rparr>"
         and b = True and op = "\<lambda>f v. Inr v"]
  have r: "x_setter \<lparr>cls = ClsVector3D, attr_x = Fin 0, attr_y = Fin 0, attr_z = Fin 0\<rparr> (PyStr ''1.5'')
     = (Some (TypeError ''expected type Union[int, float] for Vector3D.x but got str instead''),
        \<lparr>cls = ClsVector3D, attr_x = Fin 0, attr_y = Fin 0, attr_z = Fin 0\<rparr>)
   \<and> Vector3D_mul \<lparr>cls = ClsVector3D, attr_x = Fin 0, attr_y = Fin 0, attr_z = Fin 0\<rparr> (PyStr ''1.5'')
     = Inl (TypeError ''only scalars are supported for multiplication'')
   \<and> timestep_setter \<lparr>attr_timestep = PyInt 1, attr_waypoints = PyList [], attr_is_completed = False,
        attr_distance_to_end = PyInt 0, attr_data = []\<rparr> (PyStr ''1.5'')
     = (Some (TypeError ''expected type Union[int, float] for TrackStatistics.timestep but got str instead''),
        \<lparr>attr_timestep = PyInt 1, attr_waypoints = PyList [], attr_is_completed = False,
        attr_distance_to_end = PyInt 0, attr_data = []\<rparr>)
   \<and> add_data \<lparr>attr_timestep = PyInt 1, attr_waypoints = PyList [], attr_is_completed = False,
        attr_distance_to_end = PyInt 0, attr_data = []\<rparr>
       (PyVec \<lparr>cls = ClsVector3D, attr_x = Fin 0, attr_y = Fin 0, attr_z = Fin 0\<rparr>)
       (PyVec \<lparr>cls = ClsRotator3D, attr_x = Fin 0, attr_y = Fin 0, attr_z = Fin 0\<rparr>) (PyStr ''1.5'')
     = (Some (TypeError ''expected type Union[int, float] for TrackStatistics.add_data but got str instead''),
        \<lparr>attr_timestep = PyInt 1, attr_waypoints = PyList [], attr_is_completed = False,
        attr_distance_to_end = PyInt 0, attr_data = []\<rparr>)"
    using t [THEN conjunct1] by (simp add: type_mismatch_def)
  have a: "add_data \<lparr>attr_timestep = PyInt 1, attr_waypoints = PyList [], attr_is_completed = False,
        attr_distance_to_end = PyInt 0, attr_data = []\<rparr>
       (PyVec \<lparr>cls = ClsVector3D, attr_x = Fin 0, attr_y = Fin 0, attr_z = Fin 0\<rparr>)
       (PyVec \<lparr>cls = ClsRotator3D, attr_x = Fin 0, attr_y = Fin 0, attr_z = Fin 0\<rparr>) (PyBool True)
     = (None, \<lparr>attr_timestep = PyInt 1, attr_waypoints = PyList [], attr_is_completed = False,
        attr_distance_to_end = PyInt 0, attr_data = [(PyVec \<lparr>cls = ClsVector3D, attr_x = Fin 0, attr_y = Fin 0, attr_z = Fin 0\<rparr>,
                      PyVec \<lparr>cls = ClsRotator3D, attr_x = Fin 0, attr_y = Fin 0, attr_z = Fin 0\<rparr>, PyBool True)]\<rparr>)"
    using t by simp
  from r a show ?thesis by simp
qed

text \<open>
  Claim C5 as stated fails: the setters, the multiplication and \<open>add_data\<close> accept
  \<open>True\<close> and \<open>False\<close>.
\<close>

theorem booleans_accepted_counterexample:
  "x_setter \<lparr>cls = ClsVector3D, attr_x = Fin 0, attr_y = Fin 0, attr_z = Fin 0\<rparr> (PyBool True)
     = (None, \<lparr>cls = ClsVector3D, attr_x = Fin 1, attr_y = Fin 0, attr_z = Fin 0\<rparr>)
   \<and> Vector3D_mul \<lparr>cls = ClsVector3D, attr_x = Fin 2, attr_y = Fin 3, attr_z = Fin 4\<rparr> (PyBool True)
     = Inr \<lparr>cls = ClsVector3D, attr_x = Fin 2, attr_y = Fin 3, attr_z = Fin 4\<rparr>
   \<and> timestep_setter \<lparr>attr_timestep = PyInt 1, attr_waypoints = PyList [], attr_is_completed = False,
        attr_distance_to_end = PyInt 0, attr_data = []\<rparr> (PyBool True)
     = (None, \<lparr>attr_timestep = PyBool True, attr_waypoints = PyList [], attr_is_completed = False,
        attr_distance_to_end = PyInt 0, attr_data = []\<rparr>)
   \<and> distance_to_end_setter \<lparr>attr_timestep = PyInt 1, attr_waypoints = PyList [], attr_is_completed = False,
        attr_distance_to_end = PyInt 0, attr_data = []\<rparr> (PyBool False)
     = (None, \<lparr>attr_timestep = PyInt 1, attr_waypoints = PyList [], attr_is_completed = False,
        attr_distance_to_end = PyFloat (Fin 0), attr_data = []\<rparr>)
   \<and> add_data \<lparr>attr_timestep = PyInt 1, attr_waypoints = PyList [], attr_is_completed = False,
        attr_distance_to_end = PyInt 0, attr_data = []\<rparr>
       (PyVec \<lparr>cls = ClsVector3D, attr_x = Fin 0, attr_y = Fin 0, attr_z = Fin 0\<rparr>)
       (PyVec \<lparr>cls = ClsRotator3D, attr_x = Fin 0, attr_y = Fin 0, attr_z = Fin 0\<rparr>) (PyBool True)
     = (None, \<lparr>attr_timestep = PyInt 1, attr_waypoints = PyList [], attr_is_completed = False,
        attr_distance_to_end = PyInt 0, attr_data = [(PyVec \<lparr>cls = ClsVector3D, attr_x = Fin 0, attr_y = Fin 0, attr_z = Fin 0\<rparr>,
                      PyVec \<lparr>cls = ClsRotator3D, attr_x = Fin 0, attr_y = Fin 0, attr_z = Fin 0\<rparr>, PyBool True)]\<rparr>)"
proof -
  have d: "fl 2 = Fin 2" "fl 3 = Fin 3" "fl 4 = Fin 4"
    using fl_dyadic [of 2 0] fl_dyadic [of 3 0] fl_dyadic [of 4 0]
    by (simp_all add: two_pow_def)
  show ?thesis
    by (simp add: x_setter_def checked_float_def Vector3D_mul_def py_float_mul_def
          Vector3D_init_floats d timestep_setter_def checked_timestep_def
          distance_to_end_setter_def add_data_def)
qed

text \<open>
  Claim C6, as amended.  The component setters and the \<open>distance_to_end\<close> setter store
  \<open>float(a)\<close> for an integer \<open>a\<close> that \<open>float()\<close> converts, exactly \<open>a\<close> below
  \<open>2 ^ 53\<close>, and raise \<open>OverflowError\<close> for the other integers; the \<open>timestep\<close>
  setter stores the integer as it is, and it reads back as an integer.
\<close>

theorem setters_coerce_except_timestep:
  "(converts_to_float (PyInt a) \<longrightarrow>
      (\<exists>f. py_float (PyInt a) = Inr f
         \<and> x_setter self (PyInt a) = (None, self\<lparr>attr_x := f\<rparr>)
         \<and> x_getter (self\<lparr>attr_x := f\<rparr>) = PyFloat f
         \<and> y_setter self (PyInt a) = (None, self\<lparr>attr_y := f\<rparr>)
         \<and> y_getter (self\<lparr>attr_y := f\<rparr>) = PyFloat f
         \<and> z_setter self (PyInt a) = (None, self\<lparr>attr_z := f\<rparr>)
         \<and> z_getter (self\<lparr>attr_z := f\<rparr>) = PyFloat f
         \<and> distance_to_end_setter stats (PyInt a)
              = (None, stats\<lparr>attr_distance_to_end := PyFloat f\<rparr>)
         \<and> distance_to_end_getter (stats\<lparr>attr_distance_to_end := PyFloat f\<rparr>) = PyFloat f))
   \<and> (\<bar>a\<bar> < 2 ^ 53 \<longrightarrow> py_float (PyInt a) = Inr (Fin (of_int a)))
   \<and> (\<not> converts_to_float (PyInt a) \<longrightarrow>
        x_setter self (PyInt a) = (Some OverflowError, self)
        \<and> y_setter self (PyInt a) = (Some OverflowError, self)
        \<and> z_setter self (PyInt a) = (Some OverflowError, self)
        \<and> distance_to_end_setter stats (PyInt a) = (Some OverflowError, stats))
   \<and> timestep_setter stats (PyInt a) = (None, stats\<lparr>attr_timestep := PyInt a\<rparr>)
   \<and> timestep_getter (stats\<lparr>attr_timestep := PyInt a\<rparr>) = PyInt a"
proof (intro conjI impI)
  assume "converts_to_float (PyInt a)"
  then obtain f where f: "py_float (PyInt a) = Inr f" using py_float_converts by blast
  then have "x_setter self (PyInt a) = (None, self\<lparr>attr_x := f\<rparr>)"
    "y_setter self (PyInt a) = (None, self\<lparr>attr_y := f\<rparr>)"
    "z_setter self (PyInt a) = (None, self\<lparr>attr_z := f\<rparr>)"
    "distance_to_end_setter stats (PyInt a)
       = (None, stats\<lparr>attr_distance_to_end := PyFloat f\<rparr>)"
    by (simp_all add: x_setter_def y_setter_def z_setter_def distance_to_end_setter_def
          checked_float_def)
  with f show "\<exists>f. py_float (PyInt a) = Inr f
         \<and> x_setter self (PyInt a) = (None, self\<lparr>attr_x := f\<rparr>)
         \<and> x_getter (self\<lparr>attr_x := f\<rparr>) = PyFloat f
         \<and> y_setter self (PyInt a) = (None, self\<lparr>attr_y := f\<rparr>)
         \<and> y_getter (self\<lparr>attr_y := f\<rparr>) = PyFloat f
         \<and> z_setter self (PyInt a) = (None, self\<lparr>attr_z := f\<rparr>)
         \<and> z_getter (self\<lparr>attr_z := f\<rparr>) = PyFloat f
         \<and> distance_to_end_setter stats (PyInt a)
              = (None, stats\<lparr>attr_distance_to_end := PyFloat f\<rparr>)
         \<and> distance_to_end_getter (stats\<lparr>attr_distance_to_end := PyFloat f\<rparr>) = PyFloat f"
    by (simp add: x_getter_def y_getter_def z_getter_def distance_to_end_getter_def)
next
  assume "\<bar>a\<bar> < 2 ^ 53"
  then show "py_float (PyInt a) = Inr (Fin (of_int a))" by (simp add: float_of_int_exact)
next
  assume "\<not> converts_to_float (PyInt a)"
  then have o: "py_float (PyInt a) = Inl OverflowError"
    using py_float_overflow [of "PyInt a"]
    by (simp del: converts_to_float.simps py_float.simps)
  show "x_setter self (PyInt a) = (Some OverflowError, self)"
    "y_setter self (PyInt a) = (Some OverflowError, self)"
    "z_setter self (PyInt a) = (Some OverflowError, self)"
    "distance_to_end_setter stats (PyInt a) = (Some OverflowError, stats)"
    using o
    by (simp_all add: x_setter_def y_setter_def z_setter_def distance_to_end_setter_def
          checked_float_def del: py_float.simps)
next
  show "timestep_setter stats (PyInt a) = (None, stats\<lparr>attr_timestep := PyInt a\<rparr>)"
    by (simp add: timestep_setter_def checked_timestep_def)
next
  show "timestep_getter (stats\<lparr>attr_timestep := PyInt a\<rparr>) = PyInt a"
    by (simp add: timestep_getter_def)
qed

theorem setters_coerce_except_timestep_witness:
  "converts_to_float (PyInt 5) \<and> \<bar>5 :: int\<bar> < 2 ^ 53
   \<and> x_setter \<lparr>cls = ClsVector3D, attr_x = Fin 0, attr_y = Fin 0, attr_z = Fin 0\<rparr> (PyInt 5)
       = (None, \<lparr>cls = ClsVector3D, attr_x = Fin 5, attr_y = Fin 0, attr_z = Fin 0\<rparr>)
   \<and> distance_to_end_setter \<lparr>attr_timestep = PyInt 1, attr_waypoints = PyList [], attr_is_completed = False,
        attr_distance_to_end = PyInt 0, attr_data = []\<rparr> (PyInt 5)
       = (None, \<lparr>attr_timestep = PyInt 1, attr_waypoints = PyList [], attr_is_completed = False,
        attr_distance_to_end = PyFloat (Fin 5), attr_data = []\<rparr>)
   \<and> timestep_setter \<lparr>attr_timestep = PyInt 1, attr_waypoints = PyList [], attr_is_completed = False,
        attr_distance_to_end = PyInt 0, attr_data = []\<rparr> (PyInt 5)
       = (None, \<lparr>attr_timestep = PyInt 5, attr_waypoints = PyList [], attr_is_completed = False,
        attr_distance_to_end = PyInt 0, attr_data = []\<rparr>)
   \<and> \<not> converts_to_float (PyInt (2 ^ 1024))
   \<and> x_setter \<lparr>cls = ClsVector3D, attr_x = Fin 0, attr_y = Fin 0, attr_z = Fin 0\<rparr> (PyInt (2 ^ 1024))
       = (Some OverflowError, \<lparr>cls = ClsVector3D, attr_x = Fin 0, attr_y = Fin 0, attr_z = Fin 0\<rparr>)"
proof -
  have h: "converts_to_float (PyInt 5)" "\<bar>5 :: int\<bar> < 2 ^ 53" by simp_all
  note t = setters_coerce_except_timestep [where a = 5
      and self = "\<lparr>cls = ClsVector3D, attr_x = Fin 0, attr_y = Fin 0, attr_z = Fin 0\<rparr>"
      and stats = "\<lparr>attr_timestep = PyInt 1, attr_waypoints = PyList [], attr_is_completed = False,
        attr_distance_to_end = PyInt 0, attr_data = []\<rparr>"]
  from t h(2) have f: "py_float (PyInt 5) = Inr (Fin 5)" by simp
  from t h(1) f have "x_setter \<lparr>cls = ClsVector3D, attr_x = Fin 0, attr_y = Fin 0, attr_z = Fin 0\<rparr> (PyInt 5)
       = (None, \<lparr>cls = ClsVector3D, attr_x = Fin 5, attr_y = Fin 0, attr_z = Fin 0\<rparr>)
   \<and> distance_to_end_setter \<lparr>attr_timestep = PyInt 1, attr_waypoints = PyList [], attr_is_completed = False,
        attr_distance_to_end = PyInt 0, attr_data = []\<rparr> (PyInt 5)
       = (None, \<lparr>attr_timestep = PyInt 1, attr_waypoints = PyList [], attr_is_completed = False,
        attr_distance_to_end = PyFloat (Fin 5), attr_data = []\<rparr>)"
    by (auto simp del: converts_to_float.simps py_float.simps)
  moreover from t have "timestep_setter \<lparr>attr_timestep = PyInt 1, attr_waypoints = PyList [], attr_is_completed = False,
        attr_distance_to_end = PyInt 0, attr_data = []\<rparr> (PyInt 5)
       = (None, \<lparr>attr_timestep = PyInt 5, attr_waypoints = PyList [], attr_is_completed = False,
        attr_distance_to_end = PyInt 0, attr_data = []\<rparr>)"
    by simp
  moreover have n: "\<not> converts_to_float (PyInt (2 ^ 1024))" by simp
  moreover from n have "x_setter \<lparr>cls = ClsVector3D, attr_x = Fin 0, attr_y = Fin 0, attr_z = Fin 0\<rparr> (PyInt (2 ^ 1024))
       = (Some OverflowError, \<lparr>cls = ClsVector3D, attr_x = Fin 0, attr_y = Fin 0, attr_z = Fin 0\<rparr>)"
    using setters_coerce_except_timestep [where a = "2 ^ 1024"
      and self = "\<lparr>cls = ClsVector3D, attr_x = Fin 0, attr_y = Fin 0, attr_z = Fin 0\<rparr>"
      and stats = "\<lparr>attr_timestep = PyInt 1, attr_waypoints = PyList [], attr_is_completed = False,
        attr_distance_to_end = PyInt 0, attr_data = []\<rparr>"]
    by (simp del: converts_to_float.simps)
  ultimately show ?thesis using h by (simp del: converts_to_float.simps)
qed

text \<open>
  Claim C6 as stated fails for the timestep: after \<open>timestep = 5\<close> the getter returns
  the integer 5, not the float 5.0.
\<close>

theorem timestep_not_coerced_counterexample:
  "timestep_setter \<lparr>attr_timestep = PyInt 1, attr_waypoints = PyList [], attr_is_completed = False,
        attr_distance_to_end = PyInt 0, attr_data = []\<rparr> (PyInt 5)
     = (None, \<lparr>attr_timestep = PyInt 5, attr_waypoints = PyList [], attr_is_completed = False,
        attr_distance_to_end = PyInt 0, attr_data = []\<rparr>)
   \<and> timestep_getter \<lparr>attr_timestep = PyInt 5, attr_waypoints = PyList [], attr_is_completed = False,
        attr_distance_to_end = PyInt 0, attr_data = []\<rparr> = PyInt 5
   \<and> type_name (timestep_getter \<lparr>attr_timestep = PyInt 5, attr_waypoints = PyList [], attr_is_completed = False,
        attr_distance_to_end = PyInt 0, attr_data = []\<rparr>) = ''int''
   \<and> timestep_getter \<lparr>attr_timestep = PyInt 5, attr_waypoints = PyList [], attr_is_completed = False,
        attr_distance_to_end = PyInt 0, attr_data = []\<rparr> \<noteq> PyFloat (Fin 5)"
  by (simp add: timestep_setter_def checked_timestep_def timestep_getter_def)

text \<open>
  Claim C7, as amended.  For vectors with finite components such that no component-wise
  sum \<open>v1.c + v2.c\<close> is rounded (the exact sum is a binary64 number),
  \<open>(v1 + v2) - v2 == v1\<close> holds.
\<close>

theorem add_sub_round_trip_exact:
  assumes "finite_double (attr_x v1)" and "finite_double (attr_y v1)"
    and "finite_double (attr_z v1)"
    and "exact_sum (attr_x v1) (attr_x v2)" and "exact_sum (attr_y v1) (attr_y v2)"
    and "exact_sum (attr_z v1) (attr_z v2)"
  shows "\<exists>s d. Vector3D_add v1 (PyVec v2) = Inr s \<and> Vector3D_sub s (PyVec v2) = Inr d
           \<and> Vector3D_eq d (PyVec v1) = Inr True"
  using assms
  by (simp add: Vector3D_add_def Vector3D_sub_def Vector3D_eq_def Vector3D_init_floats
        float_round_trip)

theorem add_sub_round_trip_exact_witness:
  "finite_double (Fin 1) \<and> finite_double (Fin 2) \<and> finite_double (Fin 3)
   \<and> exact_sum (Fin 1) (Fin 4) \<and> exact_sum (Fin 2) (Fin 5) \<and> exact_sum (Fin 3) (Fin 6)
   \<and> (\<exists>s d.
        Vector3D_add \<lparr>cls = ClsVector3D, attr_x = Fin 1, attr_y = Fin 2, attr_z = Fin 3\<rparr>
          (PyVec \<lparr>cls = ClsVector3D, attr_x = Fin 4, attr_y = Fin 5, attr_z = Fin 6\<rparr>) = Inr s
        \<and> Vector3D_sub s
          (PyVec \<lparr>cls = ClsVector3D, attr_x = Fin 4, attr_y = Fin 5, attr_z = Fin 6\<rparr>) = Inr d
        \<and> Vector3D_eq d
          (PyVec \<lparr>cls = ClsVector3D, attr_x = Fin 1, attr_y = Fin 2, attr_z = Fin 3\<rparr>) = Inr True)"
proof -
  have d: "is_double 1" "is_double 2" "is_double 3" "is_double 5" "is_double 7" "is_double 9"
    using is_double_int [of 1] is_double_int [of 2] is_double_int [of 3]
      is_double_int [of 5] is_double_int [of 7] is_double_int [of 9]
    by simp_all
  have h: "finite_double (Fin 1)" "finite_double (Fin 2)" "finite_double (Fin 3)"
    "exact_sum (Fin 1) (Fin 4)" "exact_sum (Fin 2) (Fin 5)" "exact_sum (Fin 3) (Fin 6)"
    using d by simp_all
  show ?thesis
    using h add_sub_round_trip_exact
      [where ?v1.0 = "\<lparr>cls = ClsVector3D, attr_x = Fin 1, attr_y = Fin 2, attr_z = Fin 3\<rparr>"
         and ?v2.0 = "\<lparr>cls = ClsVector3D, attr_x = Fin 4, attr_y = Fin 5, attr_z = Fin 6\<rparr>"]
    by (simp del: finite_double.simps exact_sum.simps)
qed

text \<open>
  Claim C7 as stated fails where an addition rounds: \<open>1.0 + 2.0 ** 53\<close> is
  \<open>2.0 ** 53\<close>, so with \<open>v1 = Vector3D(1, 0, 0)\<close> and \<open>v2 = Vector3D(2 ** 53, 0, 0)\<close>
  the sum \<open>v1 + v2\<close> is \<open>v2\<close>, \<open>(v1 + v2) - v2\<close> is the zero vector, and comparing it
  with \<open>v1\<close> gives \<open>False\<close>.
\<close>

theorem add_sub_round_trip_counterexample:
  "Vector3D_init (PyInt 1) (PyInt 0) (PyInt 0)
     = Inr \<lparr>cls = ClsVector3D, attr_x = Fin 1, attr_y = Fin 0, attr_z = Fin 0\<rparr>
   \<and> Vector3D_init (PyInt 9007199254740992) (PyInt 0) (PyInt 0)
     = Inr \<lparr>cls = ClsVector3D, attr_x = Fin 9007199254740992, attr_y = Fin 0, attr_z = Fin 0\<rparr>
   \<and> Vector3D_add \<lparr>cls = ClsVector3D, attr_x = Fin 1, attr_y = Fin 0, attr_z = Fin 0\<rparr>
        (PyVec \<lparr>cls = ClsVector3D, attr_x = Fin 9007199254740992, attr_y = Fin 0, attr_z = Fin 0\<rparr>)
     = Inr \<lparr>cls = ClsVector3D, attr_x = Fin 9007199254740992, attr_y = Fin 0, attr_z = Fin 0\<rparr>
   \<and> Vector3D_sub \<lparr>cls = ClsVector3D, attr_x = Fin 9007199254740992, attr_y = Fin 0, attr_z = Fin 0\<rparr>
        (PyVec \<lparr>cls = ClsVector3D, attr_x = Fin 9007199254740992, attr_y = Fin 0, attr_z = Fin 0\<rparr>)
     = Inr \<lparr>cls = ClsVector3D, attr_x = Fin 0, attr_y = Fin 0, attr_z = Fin 0\<rparr>
   \<and> Vector3D_eq \<lparr>cls = ClsVector3D, attr_x = Fin 0, attr_y = Fin 0, attr_z = Fin 0\<rparr>
        (PyVec \<lparr>cls = ClsVector3D, attr_x = Fin 1, attr_y = Fin 0, attr_z = Fin 0\<rparr>)
     = Inr False"
proof -
  have i: "float_of_int 0 = Inr (Fin 0)" "float_of_int 1 = Inr (Fin 1)"
    using float_of_int_exact [of 0] float_of_int_exact [of 1] by simp_all
  have a: "Vector3D_init (PyInt 1) (PyInt 0) (PyInt 0)
     = Inr \<lparr>cls = ClsVector3D, attr_x = Fin 1, attr_y = Fin 0, attr_z = Fin 0\<rparr>"
    by (simp add: Vector3D_init_def checked_float_def i)
  have b: "Vector3D_init (PyInt 9007199254740992) (PyInt 0) (PyInt 0)
     = Inr \<lparr>cls = ClsVector3D, attr_x = Fin 9007199254740992, attr_y = Fin 0, attr_z = Fin 0\<rparr>"
    by (simp add: Vector3D_init_def checked_float_def i float_of_int_2_53)
  have c: "Vector3D_add \<lparr>cls = ClsVector3D, attr_x = Fin 1, attr_y = Fin 0, attr_z = Fin 0\<rparr>
        (PyVec \<lparr>cls = ClsVector3D, attr_x = Fin 9007199254740992, attr_y = Fin 0, attr_z = Fin 0\<rparr>)
     = Inr \<lparr>cls = ClsVector3D, attr_x = Fin 9007199254740992, attr_y = Fin 0, attr_z = Fin 0\<rparr>"
    using fl_tie_2_53 by (simp add: Vector3D_add_def Vector3D_init_floats fl_zero)
  have d: "Vector3D_sub \<lparr>cls = ClsVector3D, attr_x = Fin 9007199254740992, attr_y = Fin 0, attr_z = Fin 0\<rparr>
        (PyVec \<lparr>cls = ClsVector3D, attr_x = Fin 9007199254740992, attr_y = Fin 0, attr_z = Fin 0\<rparr>)
     = Inr \<lparr>cls = ClsVector3D, attr_x = Fin 0, attr_y = Fin 0, attr_z = Fin 0\<rparr>"
    by (simp add: Vector3D_sub_def Vector3D_init_floats float_sub_def fl_zero)
  have e: "Vector3D_eq \<lparr>cls = ClsVector3D, attr_x = Fin 0, attr_y = Fin 0, attr_z = Fin 0\<rparr>
        (PyVec \<lparr>cls = ClsVector3D, attr_x = Fin 1, attr_y = Fin 0, attr_z = Fin 0\<rparr>)
     = Inr False"
    by (simp add: Vector3D_eq_def float_eq_def)
  show ?thesis by (rule conjI [OF a conjI [OF b conjI [OF c conjI [OF d e]]]])
qed



end
